theory Spec2Isabelle
  imports Main
begin

section \<open>JavaScript values, exceptions and asynchronous calls\<close>

text \<open>
  The wrappers of JSDataLinker pass JavaScript values between the caller and the
  Firebase SDK. A value is modelled by the datatype below. An object is the list of its
  own enumerable properties (name and value), in the order JavaScript enumerates them; an
  array is the list of its elements; \<open>JError msg\<close> is an \<open>Error\<close> object (a
  \<open>TypeError\<close>, a \<open>ReferenceError\<close>, an error of the SDK) with the message
  \<open>msg\<close>, which is not an enumerable property.
\<close>

datatype js_value =
    JUndefined
  | JNull
  | JNaN
  | JBool bool
  | JNum int
  | JStr string
  | JArr "js_value list"
  | JObj "(string \<times> js_value) list"
  | JError string

definition TypeError :: "string \<Rightarrow> js_value" where
  "TypeError msg = JError msg"

definition ReferenceError :: "string \<Rightarrow> js_value" where
  "ReferenceError msg = JError msg"

text \<open>
  A call either returns a value or throws one: any value can be thrown, \<open>null\<close> and
  \<open>undefined\<close> included. For an \<open>async\<close> method, \<open>Returns v\<close> is the promise
  resolved with \<open>v\<close> and \<open>Throws e\<close> the promise rejected with \<open>e\<close>: the
  exception reaches the caller.
\<close>

datatype 'a outcome = Returns 'a | Throws js_value

text \<open>
  The SDK is stateful (the database behind it), so a call is a function of the state
  \<open>'s\<close> of the collaborator: it gives an outcome and the state after the call.
\<close>

type_synonym ('a, 's) action = "'s \<Rightarrow> 'a outcome \<times> 's"

definition returns :: "'a \<Rightarrow> ('a, 's) action" where
  "returns x s = (Returns x, s)"

definition throws :: "js_value \<Rightarrow> ('a, 's) action" where
  "throws e s = (Throws e, s)"

definition of_outcome :: "'a outcome \<Rightarrow> ('a, 's) action" where
  "of_outcome r s = (r, s)"

text \<open>\<open>await m f\<close>: run \<open>m\<close>; an exception ends the sequence, a value goes on to \<open>f\<close>.\<close>

definition await :: "('a, 's) action \<Rightarrow> ('a \<Rightarrow> ('b, 's) action) \<Rightarrow> ('b, 's) action" where
  "await m f s = (case m s of (Throws e, s') \<Rightarrow> (Throws e, s') | (Returns x, s') \<Rightarrow> f x s')"

text \<open>\<open>try { m } catch (error) { h error }\<close>.\<close>

definition try_catch :: "('a, 's) action \<Rightarrow> (js_value \<Rightarrow> ('a, 's) action) \<Rightarrow> ('a, 's) action" where
  "try_catch m h s = (case m s of (Throws e, s') \<Rightarrow> h e s' | (Returns x, s') \<Rightarrow> (Returns x, s'))"

text \<open>Whether the run of a method ended in an exception that reached the caller.\<close>

fun threw :: "'a outcome \<times> 's \<Rightarrow> bool" where
  "threw (Throws e, s) = True"
| "threw (Returns v, s) = False"

subsection \<open>Properties, spread and \<open>Object.values\<close>\<close>

text \<open>Array indices as property names: the decimal digits of the index.\<close>

definition digit_char :: "nat \<Rightarrow> char" where
  "digit_char d = ''0123456789'' ! d"

fun string_of_nat :: "nat \<Rightarrow> string" where
  "string_of_nat n =
     (if n < 10 then [digit_char n] else string_of_nat (n div 10) @ [digit_char (n mod 10)])"

declare string_of_nat.simps [simp del]

text \<open>
  A property name is an array index when it is the decimal form, without leading zeros,
  of a number below \<open>2^32 - 1\<close>.
\<close>

definition digit_of :: "char \<Rightarrow> int option" where
  "digit_of c =
     map_of [(CHR ''0'', 0), (CHR ''1'', 1), (CHR ''2'', 2), (CHR ''3'', 3), (CHR ''4'', 4),
             (CHR ''5'', 5), (CHR ''6'', 6), (CHR ''7'', 7), (CHR ''8'', 8), (CHR ''9'', 9)] c"

fun decimal_from :: "int \<Rightarrow> string \<Rightarrow> int option" where
  "decimal_from n [] = Some n"
| "decimal_from n (c # cs) =
     (case digit_of c of None \<Rightarrow> None | Some d \<Rightarrow> decimal_from (10 * n + d) cs)"

definition array_index :: "string \<Rightarrow> int option" where
  "array_index k =
     (case k of
        [] \<Rightarrow> None
      | c # cs \<Rightarrow>
          if c = CHR ''0'' \<and> cs \<noteq> [] then None
          else (case decimal_from 0 k of
                  None \<Rightarrow> None
                | Some n \<Rightarrow> if n < 4294967295 then Some n else None))"

text \<open>
  The own enumerable properties of a value, which \<open>Object.values\<close> and the spread
  \<open>{...v}\<close> read: the properties of an object, the indexed elements of an array, the
  indexed characters of a string, and nothing for any other value.
\<close>

fun own_entries :: "js_value \<Rightarrow> (string \<times> js_value) list" where
  "own_entries (JObj props) = props"
| "own_entries (JArr xs) = zip (map string_of_nat [0..<length xs]) xs"
| "own_entries (JStr s) = zip (map string_of_nat [0..<length s]) (map (\<lambda>c. JStr [c]) s)"
| "own_entries _ = []"

text \<open>\<open>Object.values(v)\<close> throws for \<open>undefined\<close> and \<open>null\<close>.\<close>

fun Object_values :: "js_value \<Rightarrow> js_value list outcome" where
  "Object_values JUndefined = Throws (TypeError ''Cannot convert undefined or null to object'')"
| "Object_values JNull = Throws (TypeError ''Cannot convert undefined or null to object'')"
| "Object_values v = Returns (map snd (own_entries v))"

text \<open>
  Assigning a property. An existing one keeps its place. A new one that is an array index
  goes among the indices, which come first in ascending order; any other new one comes
  last.
\<close>

fun insert_index :: "int \<Rightarrow> string \<Rightarrow> js_value \<Rightarrow> (string \<times> js_value) list \<Rightarrow> (string \<times> js_value) list" where
  "insert_index n k v [] = [(k, v)]"
| "insert_index n k v ((k', v') # props) =
     (case array_index k' of
        None \<Rightarrow> (k, v) # (k', v') # props
      | Some m \<Rightarrow>
          if m < n then (k', v') # insert_index n k v props else (k, v) # (k', v') # props)"

fun replace_property :: "string \<Rightarrow> js_value \<Rightarrow> (string \<times> js_value) list \<Rightarrow> (string \<times> js_value) list" where
  "replace_property k v [] = []"
| "replace_property k v ((k', v') # props) =
     (if k = k' then (k, v) # props else (k', v') # replace_property k v props)"

definition put_property :: "string \<Rightarrow> js_value \<Rightarrow> (string \<times> js_value) list \<Rightarrow> (string \<times> js_value) list" where
  "put_property k v props =
     (if k \<in> fst ` set props then replace_property k v props
      else (case array_index k of
              None \<Rightarrow> props @ [(k, v)]
            | Some n \<Rightarrow> insert_index n k v props))"

text \<open>\<open>{...props, ...v}\<close>: the own properties of \<open>v\<close> assigned in order.\<close>

definition spread :: "(string \<times> js_value) list \<Rightarrow> js_value \<Rightarrow> (string \<times> js_value) list" where
  "spread props v = fold (\<lambda>(k, x) acc. put_property k x acc) (own_entries v) props"

text \<open>A property name as an error message shows it, between single quotes.\<close>

definition quoted :: "string \<Rightarrow> string" where
  "quoted k = [CHR 0x27] @ k @ [CHR 0x27]"

text \<open>
  Reading one of the properties the wrappers read of an SDK result or of a thrown value
  (\<open>uid\<close>, \<open>user\<close>, \<open>users\<close>, \<open>message\<close>), none of which a primitive value
  or an array carries: reading it of \<open>undefined\<close> or \<open>null\<close> throws, of an object
  without it gives \<open>undefined\<close>. An \<open>Error\<close> object has its \<open>message\<close>.
\<close>

fun get_property :: "js_value \<Rightarrow> string \<Rightarrow> js_value outcome" where
  "get_property JUndefined k =
     Throws (TypeError (''Cannot read properties of undefined (reading '' @ quoted k @ '')''))"
| "get_property JNull k =
     Throws (TypeError (''Cannot read properties of null (reading '' @ quoted k @ '')''))"
| "get_property (JObj props) k = Returns (case map_of props k of None \<Rightarrow> JUndefined | Some v \<Rightarrow> v)"
| "get_property (JError msg) k = Returns (if k = ''message'' then JStr msg else JUndefined)"
| "get_property _ k = Returns JUndefined"

text \<open>
  The handler every \<open>catch\<close> block of the wrappers has:
  \<open>return [false, error.message]\<close>. Reading \<open>message\<close> of a thrown \<open>null\<close> or
  \<open>undefined\<close> throws in its turn, out of the method.
\<close>

definition return_failure :: "js_value \<Rightarrow> (js_value, 's) action" where
  "return_failure error =
     await (of_outcome (get_property error ''message'')) (\<lambda>message.
       returns (JArr [JBool False, message]))"

definition nullish :: "js_value \<Rightarrow> bool" where
  "nullish v = (v = JUndefined \<or> v = JNull)"

text \<open>
  \<open>v[1]\<close>, read of the two-element arrays the wrappers return.
\<close>

fun element1 :: "js_value \<Rightarrow> js_value outcome" where
  "element1 JUndefined =
     Throws (TypeError (''Cannot read properties of undefined (reading '' @ quoted ''1'' @ '')''))"
| "element1 JNull =
     Throws (TypeError (''Cannot read properties of null (reading '' @ quoted ''1'' @ '')''))"
| "element1 (JArr (x # y # ys)) = Returns y"
| "element1 (JObj props) = Returns (case map_of props ''1'' of None \<Rightarrow> JUndefined | Some v \<Rightarrow> v)"
| "element1 (JStr (x # y # ys)) = Returns (JStr [y])"
| "element1 _ = Returns JUndefined"

text \<open>\<open>s.split(c)\<close> for a one-character separator.\<close>

fun split_on :: "char \<Rightarrow> string \<Rightarrow> string list" where
  "split_on c [] = [[]]"
| "split_on c (x # xs) =
     (if x = c then [] # split_on c xs
      else (case split_on c xs of [] \<Rightarrow> [[x]] | w # ws \<Rightarrow> (x # w) # ws))"

section \<open>Firestore: references of the Admin SDK\<close>

text \<open>
  The class builds its references with the Admin SDK (firebase-admin, whose Firestore is
  \<open>@google-cloud/firestore\<close>). A reference is a \<open>CollectionReference\<close> or a
  \<open>DocumentReference\<close>, each with the segments of its path from the root: an odd
  number for a collection, an even number for a document.
\<close>

datatype reference = CollectionRef "string list" | DocumentRef "string list"

text \<open>
  The SDK checks every path it is given: it must be a non-empty string without
  \<open>//\<close>. It then splits the path at \<open>/\<close>, drops empty segments (a leading or
  trailing slash is allowed) and appends the rest to the path of the reference.
\<close>

definition dquoted :: "string \<Rightarrow> string" where
  "dquoted s = [CHR 0x22] @ s @ [CHR 0x22]"

fun has_double_slash :: "string \<Rightarrow> bool" where
  "has_double_slash (x # y # r) = ((x = CHR ''/'' \<and> y = CHR ''/'') \<or> has_double_slash (y # r))"
| "has_double_slash _ = False"

definition validateResourcePath :: "string \<Rightarrow> string \<Rightarrow> unit outcome" where
  "validateResourcePath arg resourcePath =
     (if resourcePath = [] then
        Throws (JError (''Value for argument '' @ dquoted arg @
          '' is not a valid resource path. Path must be a non-empty string.''))
      else if has_double_slash resourcePath then
        Throws (JError (''Value for argument '' @ dquoted arg @
          '' is not a valid resource path. Paths must not contain //.''))
      else Returns ())"

definition resource_segments :: "string \<Rightarrow> string list" where
  "resource_segments relativePath = filter (\<lambda>seg. seg \<noteq> []) (split_on (CHR ''/'') relativePath)"

text \<open>\<open>admin.firestore().collection(collectionPath)\<close>: the path must be that of a collection.\<close>

definition sdk_collection :: "string \<Rightarrow> reference outcome" where
  "sdk_collection collectionPath =
     (case validateResourcePath ''collectionPath'' collectionPath of
        Throws e \<Rightarrow> Throws e
      | Returns _ \<Rightarrow>
          (let path = resource_segments collectionPath in
           if odd (length path) then Returns (CollectionRef path)
           else Throws (JError (''Value for argument '' @ dquoted ''collectionPath'' @
                  '' must point to a collection, but was '' @ dquoted collectionPath @
                  ''. Your path does not contain an odd number of components.''))))"

text \<open>
  \<open>collectionRef.doc(documentPath)\<close>. Only a \<open>CollectionReference\<close> has the
  method \<open>doc\<close>: called on a \<open>DocumentReference\<close>, \<open>collectionRef.doc\<close> is
  \<open>undefined\<close> and the call is a \<open>TypeError\<close>.
\<close>

fun sdk_doc :: "reference \<Rightarrow> string \<Rightarrow> reference outcome" where
  "sdk_doc (DocumentRef segs) documentPath = Throws (TypeError ''collectionRef.doc is not a function'')"
| "sdk_doc (CollectionRef segs) documentPath =
     (case validateResourcePath ''documentPath'' documentPath of
        Throws e \<Rightarrow> Throws e
      | Returns _ \<Rightarrow>
          (let path = segs @ resource_segments documentPath in
           if path \<noteq> [] \<and> even (length path) then Returns (DocumentRef path)
           else Throws (JError (''Value for argument '' @ dquoted ''documentPath'' @
                  '' must point to a document, but was '' @ dquoted documentPath @
                  ''. Your path does not contain an even number of components.''))))"

text \<open>\<open>docRef.collection(collectionPath)\<close>, a method of \<open>DocumentReference\<close> only.\<close>

fun sdk_subcollection :: "reference \<Rightarrow> string \<Rightarrow> reference outcome" where
  "sdk_subcollection (CollectionRef segs) collectionPath =
     Throws (TypeError ''collectionRef.doc(...).collection is not a function'')"
| "sdk_subcollection (DocumentRef segs) collectionPath =
     (case validateResourcePath ''collectionPath'' collectionPath of
        Throws e \<Rightarrow> Throws e
      | Returns _ \<Rightarrow>
          (let path = segs @ resource_segments collectionPath in
           if odd (length path) then Returns (CollectionRef path)
           else Throws (JError (''Value for argument '' @ dquoted ''collectionPath'' @
                  '' must point to a collection, but was '' @ dquoted collectionPath @
                  ''. Your path does not contain an odd number of components.''))))"

text \<open>
  The document store behind the references, the external collaborator of the class. Each
  field but the first is one call on a reference; any of them may throw. \<open>doc_get\<close>
  gives the snapshot: \<open>None\<close> when the document does not exist (\<open>exists\<close> is
  false), else its \<open>data()\<close>. \<open>listDocuments\<close> gives the \<open>path\<close> of each
  document reference it enumerates, segments joined by \<open>/\<close>. \<open>collection_docs\<close> is
  the query of a collection: the documents (id and content) of the collection that holds
  the reference, in the collection's enumeration order. \<open>autoId\<close> is the id the SDK
  generates for \<open>doc()\<close>: twenty alphanumeric characters drawn at random, here drawn
  from the state.
\<close>

record 's firestore_sdk =
  autoId :: "'s \<Rightarrow> string \<times> 's"
  doc_set :: "reference \<Rightarrow> js_value \<Rightarrow> (unit, 's) action"
  doc_get :: "reference \<Rightarrow> (js_value option, 's) action"
  doc_update :: "reference \<Rightarrow> js_value \<Rightarrow> (unit, 's) action"
  doc_delete :: "reference \<Rightarrow> (unit, 's) action"
  listDocuments :: "reference \<Rightarrow> (string list, 's) action"
  collection_docs :: "reference \<Rightarrow> ((string \<times> js_value) list, 's) action"

text \<open>
  \<open>collectionRef.doc()\<close>, without an argument: on a \<open>CollectionReference\<close>, the
  document under a generated id, which is one segment; on a \<open>DocumentReference\<close>
  the same \<open>TypeError\<close> as above, before any id is generated.
\<close>

fun sdk_auto_doc :: "'s firestore_sdk \<Rightarrow> reference \<Rightarrow> (reference, 's) action" where
  "sdk_auto_doc sdk (DocumentRef segs) s = (Throws (TypeError ''collectionRef.doc is not a function''), s)"
| "sdk_auto_doc sdk (CollectionRef segs) s =
     (case autoId sdk s of (generated, s') \<Rightarrow> (Returns (DocumentRef (segs @ [generated])), s'))"

text \<open>
  The methods of a reference the class calls. \<open>set\<close>, \<open>get\<close>, \<open>update\<close> and
  \<open>delete\<close> are methods of a \<open>DocumentReference\<close>, \<open>listDocuments\<close> is one
  of a \<open>CollectionReference\<close>; on the other kind the method is \<open>undefined\<close> and
  the call is a \<open>TypeError\<close>.
\<close>

fun ref_set :: "'s firestore_sdk \<Rightarrow> reference \<Rightarrow> js_value \<Rightarrow> (unit, 's) action" where
  "ref_set sdk (DocumentRef segs) data = doc_set sdk (DocumentRef segs) data"
| "ref_set sdk (CollectionRef segs) data = throws (TypeError ''docRef.set is not a function'')"

fun ref_get :: "'s firestore_sdk \<Rightarrow> reference \<Rightarrow> (js_value option, 's) action" where
  "ref_get sdk (DocumentRef segs) = doc_get sdk (DocumentRef segs)"
| "ref_get sdk (CollectionRef segs) =
     throws (TypeError ''this.getNestedCollectionReference(...).get is not a function'')"

fun ref_update :: "'s firestore_sdk \<Rightarrow> reference \<Rightarrow> js_value \<Rightarrow> (unit, 's) action" where
  "ref_update sdk (DocumentRef segs) data = doc_update sdk (DocumentRef segs) data"
| "ref_update sdk (CollectionRef segs) data =
     throws (TypeError ''this.getNestedCollectionReference(...).update is not a function'')"

fun ref_delete :: "'s firestore_sdk \<Rightarrow> reference \<Rightarrow> (unit, 's) action" where
  "ref_delete sdk (DocumentRef segs) = doc_delete sdk (DocumentRef segs)"
| "ref_delete sdk (CollectionRef segs) =
     throws (TypeError ''this.getNestedCollectionReference(...).delete is not a function'')"

fun ref_listDocuments :: "'s firestore_sdk \<Rightarrow> reference \<Rightarrow> (string list, 's) action" where
  "ref_listDocuments sdk (CollectionRef segs) = listDocuments sdk (CollectionRef segs)"
| "ref_listDocuments sdk (DocumentRef segs) =
     throws (TypeError ''this.getNestedCollectionReference(...).listDocuments is not a function'')"

section \<open>Firestore: the class\<close>

text \<open>
  The fields the constructor stores. \<open>uid\<close> is a string or absent (\<open>undefined\<close>);
  \<open>collection\<close> is \<open>admin.firestore().collection(collectionName)\<close>, so the
  constructor throws when the SDK rejects the name.
\<close>

record Firestore =
  collectionName :: string
  collection :: reference
  uid :: "string option"
  nestedPaths :: "string list"

definition new_Firestore :: "string \<Rightarrow> string option \<Rightarrow> string list \<Rightarrow> Firestore outcome" where
  "new_Firestore name u paths =
     (case sdk_collection name of
        Throws e \<Rightarrow> Throws e
      | Returns c \<Rightarrow> Returns \<lparr>collectionName = name, collection = c, uid = u, nestedPaths = paths\<rparr>)"

text \<open>An instance is one the constructor returns.\<close>

definition constructed :: "Firestore \<Rightarrow> bool" where
  "constructed self = (new_Firestore (collectionName self) (uid self) (nestedPaths self) = Returns self)"

text \<open>
  The test \<open>uid ? ... : ...\<close>: \<open>null\<close> and \<open>undefined\<close> are falsy, and of the
  strings the empty one is.
\<close>

fun truthy :: "string \<Rightarrow> bool" where
  "truthy name = (name \<noteq> [])"

text \<open>
  The loop of \<open>getNestedCollectionReference\<close>, with its index \<open>i\<close> and the reference
  built so far; a call of the SDK that throws ends it.
\<close>

function nested_loop :: "string list \<Rightarrow> nat \<Rightarrow> reference \<Rightarrow> reference outcome" where
  "nested_loop paths i collectionRef =
     (if i < length paths then
        (if length paths > i + 1 then
           (case sdk_doc collectionRef (paths ! i) of
              Throws e \<Rightarrow> Throws e
            | Returns docRef \<Rightarrow>
                (case sdk_subcollection docRef (paths ! (i + 1)) of
                   Throws e \<Rightarrow> Throws e
                 | Returns sub \<Rightarrow> nested_loop paths (i + 2) sub))
         else
           (case sdk_doc collectionRef (paths ! i) of
              Throws e \<Rightarrow> Throws e
            | Returns docRef \<Rightarrow> nested_loop paths (i + 2) docRef))
      else Returns collectionRef)"
  by pat_completeness auto
termination
  by (relation "measure (\<lambda>(paths, i, collectionRef). length paths - i)") auto

declare nested_loop.simps [simp del]

definition getNestedCollectionReference ::
  "'s firestore_sdk \<Rightarrow> Firestore \<Rightarrow> string option \<Rightarrow> (reference, 's) action" where
  "getNestedCollectionReference sdk self u =
     await (of_outcome (nested_loop (nestedPaths self) 0 (collection self))) (\<lambda>collectionRef.
       case u of
         None \<Rightarrow> sdk_auto_doc sdk collectionRef
       | Some name \<Rightarrow>
           if truthy name then of_outcome (sdk_doc collectionRef name)
           else sdk_auto_doc sdk collectionRef)"

text \<open>
  A segment that is one identifier: not empty and without \<open>/\<close>. The
  \<open>k\<close>-th (document id, sub-collection name) pair of a nested path, as the two
  segments it adds to a reference.
\<close>

definition valid_id :: "string \<Rightarrow> bool" where
  "valid_id seg = (seg \<noteq> [] \<and> CHR ''/'' \<notin> set seg)"

definition pair_at :: "string list \<Rightarrow> nat \<Rightarrow> string list" where
  "pair_at paths k = [paths ! (2 * k), paths ! (2 * k + 1)]"

definition descend_pairs :: "string list \<Rightarrow> string list" where
  "descend_pairs paths = concat (map (pair_at paths) [0..<length paths div 2])"

text \<open>
  \<open>create\<close> calls \<open>getDocumentIdByContent(docRef, data)\<close>, which the module
  imports from \<open>utils/firebase/getDocumentIdByContent.js\<close>. That file is not among
  the sources, so the method takes the helper as its parameter \<open>findId\<close>.
\<close>

definition Firestore_create ::
  "'s firestore_sdk \<Rightarrow> (reference \<Rightarrow> js_value \<Rightarrow> (js_value, 's) action) \<Rightarrow>
   Firestore \<Rightarrow> js_value \<Rightarrow> (js_value, 's) action" where
  "Firestore_create sdk findId self data =
     await (getNestedCollectionReference sdk self None) (\<lambda>docRef.
     await (ref_set sdk docRef data) (\<lambda>_.
     await (findId docRef data) (\<lambda>docID.
     returns (JArr [JBool True, docID]))))"

definition Firestore_read :: "'s firestore_sdk \<Rightarrow> Firestore \<Rightarrow> (js_value, 's) action" where
  "Firestore_read sdk self =
     await (getNestedCollectionReference sdk self (uid self)) (\<lambda>docRef.
     await (ref_get sdk docRef) (\<lambda>docSnapshot.
       case docSnapshot of
         None \<Rightarrow> returns (JArr [JBool False, JStr ''Document does not exist''])
       | Some content \<Rightarrow> returns (JArr [JBool True, content])))"

definition Firestore_update :: "'s firestore_sdk \<Rightarrow> Firestore \<Rightarrow> js_value \<Rightarrow> (js_value, 's) action" where
  "Firestore_update sdk self data =
     await (getNestedCollectionReference sdk self (uid self)) (\<lambda>docRef.
     await (ref_update sdk docRef data) (\<lambda>_.
       returns (JArr [JBool True, JNaN])))"

definition Firestore_delete :: "'s firestore_sdk \<Rightarrow> Firestore \<Rightarrow> (js_value, 's) action" where
  "Firestore_delete sdk self =
     await (getNestedCollectionReference sdk self (uid self)) (\<lambda>docRef.
     await (ref_delete sdk docRef) (\<lambda>_.
       returns (JArr [JBool True, JNaN])))"

text \<open>
  \<open>doc.path.split("/")[1]\<close>: the second segment of a path, \<open>undefined\<close> (here
  \<open>None\<close>) when the path has fewer than two.
\<close>

definition second_segment :: "string \<Rightarrow> string option" where
  "second_segment path =
     (case split_on (CHR ''/'') path of x # y # ys \<Rightarrow> Some y | _ \<Rightarrow> None)"

definition js_of_name :: "string option \<Rightarrow> js_value" where
  "js_of_name p = (case p of None \<Rightarrow> JUndefined | Some name \<Rightarrow> JStr name)"

text \<open>The list \<open>paths\<close> that \<open>readPaths\<close> computes, before it is wrapped.\<close>

definition enumerated_paths :: "'s firestore_sdk \<Rightarrow> Firestore \<Rightarrow> (string option list, 's) action" where
  "enumerated_paths sdk self =
     await (getNestedCollectionReference sdk self None) (\<lambda>docRef.
     await (ref_listDocuments sdk docRef) (\<lambda>docs.
       returns (map second_segment docs)))"

definition readPaths :: "'s firestore_sdk \<Rightarrow> Firestore \<Rightarrow> (js_value, 's) action" where
  "readPaths sdk self =
     await (enumerated_paths sdk self) (\<lambda>paths.
       returns (JArr [JBool True, JArr (map js_of_name paths)]))"

text \<open>
  The property name \<open>allDocs[path]\<close> assigns: \<open>undefined\<close> as a key is the string
  \<open>undefined\<close>.
\<close>

definition property_name :: "string option \<Rightarrow> string" where
  "property_name p = (case p of None \<Rightarrow> ''undefined'' | Some name \<Rightarrow> name)"

text \<open>
  The loop of \<open>readAll\<close> over \<open>paths\<close>: each turn constructs
  \<open>new Firestore(this.collectionName, path)\<close> (no nested paths), awaits its
  \<open>read()\<close> and assigns element 1 of the result to \<open>allDocs[path]\<close>.
\<close>

fun readAll_loop ::
  "'s firestore_sdk \<Rightarrow> string \<Rightarrow> string option list \<Rightarrow> (string \<times> js_value) list \<Rightarrow>
   ((string \<times> js_value) list, 's) action" where
  "readAll_loop sdk name [] allDocs s = (Returns allDocs, s)"
| "readAll_loop sdk name (path # paths) allDocs s =
     await (of_outcome (new_Firestore name path [])) (\<lambda>iterFirestore.
     await (Firestore_read sdk iterFirestore) (\<lambda>docSnapshot.
     await (of_outcome (element1 docSnapshot)) (\<lambda>content.
     readAll_loop sdk name paths (put_property (property_name path) content allDocs)))) s"

text \<open>
  \<open>readAll\<close> awaits \<open>readPaths()\<close> and takes element 1 of its result, the list
  \<open>paths\<close>.
\<close>

definition readAll :: "'s firestore_sdk \<Rightarrow> Firestore \<Rightarrow> (js_value, 's) action" where
  "readAll sdk self =
     await (enumerated_paths sdk self) (\<lambda>paths.
     await (readAll_loop sdk (collectionName self) paths []) (\<lambda>allDocs.
     returns (JArr [JBool True, JObj allDocs])))"

subsection \<open>The helper \<open>getDocumentIdByContent\<close>\<close>

text \<open>
  Modelled from the spec: \<open>utils/firebase/getDocumentIdByContent.js\<close>, which
  \<open>Firestore.create\<close> imports, is not among the sources. The spec (4.1,
  findIdByContent) gives it the reference just written and the record, and has it
  re-query the collection and return the identifier of the document whose stored content
  equals the record, by value on all fields; of several documents with that content, the
  first in the collection's enumeration order. The spec does not say what it gives when
  no document matches; the model gives \<open>undefined\<close> there.
\<close>

definition first_match :: "(string \<times> js_value) list \<Rightarrow> js_value \<Rightarrow> js_value" where
  "first_match docs data =
     (case find (\<lambda>(docID, content). content = data) docs of
        None \<Rightarrow> JUndefined
      | Some (docID, content) \<Rightarrow> JStr docID)"

definition getDocumentIdByContent ::
  "'s firestore_sdk \<Rightarrow> reference \<Rightarrow> js_value \<Rightarrow> (js_value, 's) action" where
  "getDocumentIdByContent sdk docRef data =
     await (collection_docs sdk docRef) (\<lambda>docs. returns (first_match docs data))"

subsection \<open>A document store in memory\<close>

text \<open>
  The reference model of the document store the round-trip properties are stated on: the
  stored documents, each under the path of its reference, in the order they were created
  (the enumeration order). The calls reach the store through the methods of a reference
  above, so each with a reference of the kind that has the method. The enumerations list
  the collection the reference is, or the one that holds it. No call throws but
  \<open>update\<close> of a missing document.
\<close>

type_synonym documents = "(string list \<times> js_value) list"

fun segments :: "reference \<Rightarrow> string list" where
  "segments (CollectionRef segs) = segs"
| "segments (DocumentRef segs) = segs"

fun parent_path :: "reference \<Rightarrow> string list" where
  "parent_path (CollectionRef segs) = segs"
| "parent_path (DocumentRef segs) = butlast segs"

text \<open>An auto-generated id: a string of letters longer than the id of any stored document.\<close>

definition fresh_id :: "documents \<Rightarrow> string" where
  "fresh_id docs =
     replicate (Suc (foldr (\<lambda>(path, content) n. max (if path = [] then 0 else length (last path)) n) docs 0))
       (CHR ''a'')"

fun put_document :: "string list \<Rightarrow> js_value \<Rightarrow> documents \<Rightarrow> documents" where
  "put_document path data [] = [(path, data)]"
| "put_document path data ((path', content) # docs) =
     (if path = path' then (path, data) # docs else (path', content) # put_document path data docs)"

definition stored :: "documents \<Rightarrow> string list \<Rightarrow> js_value option" where
  "stored docs path = map_of docs path"

text \<open>The documents of the collection at a path, in order.\<close>

definition documents_in :: "documents \<Rightarrow> string list \<Rightarrow> documents" where
  "documents_in docs parent = filter (\<lambda>(path, content). path \<noteq> [] \<and> butlast path = parent) docs"

fun path_string :: "string list \<Rightarrow> string" where
  "path_string [] = []"
| "path_string [seg] = seg"
| "path_string (seg # seg' # segs) = seg @ ''/'' @ path_string (seg' # segs)"

text \<open>The documents of the collection as a query gives them: id and content.\<close>

definition listed :: "documents \<Rightarrow> reference \<Rightarrow> (string \<times> js_value) list" where
  "listed docs r = map (\<lambda>(path, content). (last path, content)) (documents_in docs (parent_path r))"

definition memory_firestore :: "documents firestore_sdk" where
  "memory_firestore =
     \<lparr> autoId = (\<lambda>docs. (fresh_id docs, docs)),
       doc_set = (\<lambda>r data docs. (Returns (), put_document (segments r) data docs)),
       doc_get = (\<lambda>r docs. (Returns (stored docs (segments r)), docs)),
       doc_update = (\<lambda>r data docs.
         (case stored docs (segments r) of
            None \<Rightarrow> (Throws (JError ''5 NOT_FOUND: No document to update''), docs)
          | Some content \<Rightarrow>
              (Returns (), put_document (segments r) (JObj (spread (own_entries content) data)) docs))),
       doc_delete = (\<lambda>r docs. (Returns (), filter (\<lambda>(path, content). path \<noteq> segments r) docs)),
       listDocuments = (\<lambda>r docs.
         (Returns (map (\<lambda>(path, content). path_string path) (documents_in docs (segments r))), docs)),
       collection_docs = (\<lambda>r docs. (Returns (listed docs r), docs)) \<rparr>"

text \<open>
  What the store keeps true: no two entries under one path, every entry under the path
  of a document, with segments that are identifiers.
\<close>

definition valid_path :: "string list \<Rightarrow> bool" where
  "valid_path path = (path \<noteq> [] \<and> even (length path) \<and> list_all valid_id path)"

definition well_formed :: "documents \<Rightarrow> bool" where
  "well_formed docs = (distinct (map fst docs) \<and> list_all (\<lambda>(path, content). valid_path path) docs)"

text \<open>
  Modelled from the spec: what \<open>create\<close> needs of the helper that is not among the
  sources, in the words of the spec (8): it returns an id whose stored record is equal to
  the record just written. On the store in memory: when the record is the content of a
  document of the collection, the helper returns the id of such a document and leaves the
  store as it is.
\<close>

definition finds_equal_content ::
  "(reference \<Rightarrow> js_value \<Rightarrow> (js_value, documents) action) \<Rightarrow> bool" where
  "finds_equal_content findId =
     (\<forall>docRef content docs.
        content \<in> snd ` set (listed docs docRef) \<longrightarrow>
        (\<exists>i. findId docRef content docs = (Returns (JStr i), docs)
             \<and> (i, content) \<in> set (listed docs docRef)))"

text \<open>A store whose every call is rejected with the value \<open>e\<close>.\<close>

definition unavailable :: js_value where
  "unavailable = JError ''UNAVAILABLE''"

definition rejecting_firestore :: "js_value \<Rightarrow> unit firestore_sdk" where
  "rejecting_firestore e =
     \<lparr> autoId = (\<lambda>s. (''AbCdEfGhIjKlMnOpQrSt'', s)),
       doc_set = (\<lambda>r data. throws e),
       doc_get = (\<lambda>r. throws e),
       doc_update = (\<lambda>r data. throws e),
       doc_delete = (\<lambda>r. throws e),
       listDocuments = (\<lambda>r. throws e),
       collection_docs = (\<lambda>r. throws e) \<rparr>"

section \<open>RealTime: the wrapper's methods\<close>

text \<open>
  A Realtime Database reference is the path of its node; its \<open>key\<close> is the last
  segment, \<open>null\<close> for the root. The instance holds \<open>itemsRef\<close>, the reference
  its constructor makes of the path.
\<close>

type_synonym db_ref = "string list"

fun key :: "db_ref \<Rightarrow> js_value" where
  "key [] = JNull"
| "key [k] = JStr k"
| "key (x # y # r) = key (y # r)"

record RealTime =
  itemsRef :: db_ref

text \<open>
  The functions the class imports from \<open>firebase/database\<close>; any of them may throw.
  \<open>db_get\<close> gives the snapshot as the list of its children, each with its \<open>key\<close>
  and its \<open>val()\<close>, in the order \<open>forEach\<close> visits them.
\<close>

record 's database_sdk =
  db_push :: "db_ref \<Rightarrow> (db_ref, 's) action"
  db_child :: "db_ref \<Rightarrow> js_value \<Rightarrow> (db_ref, 's) action"
  db_set :: "db_ref \<Rightarrow> js_value \<Rightarrow> (unit, 's) action"
  db_get :: "db_ref \<Rightarrow> ((string \<times> js_value) list, 's) action"
  db_remove :: "db_ref \<Rightarrow> (unit, 's) action"

definition RealTime_create :: "'s database_sdk \<Rightarrow> RealTime \<Rightarrow> js_value \<Rightarrow> (js_value, 's) action" where
  "RealTime_create sdk self data =
     try_catch
       (await (of_outcome (Object_values data)) (\<lambda>values.
          if JUndefined \<in> set values
          then returns (JArr [JBool False, JStr ''Data contains undefined values''])
          else
            await (db_push sdk (itemsRef self)) (\<lambda>newItemRef.
            await (db_set sdk newItemRef data) (\<lambda>_.
            returns (JArr [JBool True, key newItemRef])))))
       return_failure"

text \<open>The items \<open>read\<close> collects: \<open>{ id: childSnapshot.key, ...childSnapshot.val() }\<close>.\<close>

definition items_of :: "(string \<times> js_value) list \<Rightarrow> js_value" where
  "items_of snapshot = JArr (map (\<lambda>(k, v). JObj (spread [(''id'', JStr k)] v)) snapshot)"

definition RealTime_read :: "'s database_sdk \<Rightarrow> RealTime \<Rightarrow> (js_value, 's) action" where
  "RealTime_read sdk self =
     try_catch
       (await (db_get sdk (itemsRef self)) (\<lambda>snapshot.
          returns (JArr [JBool True, items_of snapshot])))
       return_failure"

definition RealTime_update :: "'s database_sdk \<Rightarrow> RealTime \<Rightarrow> js_value \<Rightarrow> js_value \<Rightarrow> (js_value, 's) action" where
  "RealTime_update sdk self ident newData =
     try_catch
       (await (db_child sdk (itemsRef self) ident) (\<lambda>itemRef.
        await (db_set sdk itemRef newData) (\<lambda>_.
        returns (JArr [JBool True, JBool True]))))
       return_failure"

definition RealTime_delete :: "'s database_sdk \<Rightarrow> RealTime \<Rightarrow> js_value \<Rightarrow> (js_value, 's) action" where
  "RealTime_delete sdk self ident =
     try_catch
       (await (db_child sdk (itemsRef self) ident) (\<lambda>itemRef.
        await (db_remove sdk itemRef) (\<lambda>_.
        returns (JArr [JBool True, JBool True]))))
       return_failure"

text \<open>A database in memory: the stored nodes in order, and the number of keys pushed.\<close>

record database =
  nodes :: "(db_ref \<times> js_value) list"
  pushed :: nat

fun put_node :: "db_ref \<Rightarrow> js_value \<Rightarrow> (db_ref \<times> js_value) list \<Rightarrow> (db_ref \<times> js_value) list" where
  "put_node r data [] = [(r, data)]"
| "put_node r data ((r', content) # ns) =
     (if r = r' then (r, data) # ns else (r', content) # put_node r data ns)"

definition memory_database :: "database database_sdk" where
  "memory_database =
     \<lparr> db_push = (\<lambda>r db. (Returns (r @ [''-N'' @ string_of_nat (pushed db)]), db\<lparr>pushed := Suc (pushed db)\<rparr>)),
       db_child = (\<lambda>r ident db.
         (case ident of
            JStr name \<Rightarrow> (Returns (r @ [name]), db)
          | _ \<Rightarrow> (Throws (JError ''child failed: path argument was an invalid path''), db))),
       db_set = (\<lambda>r data db. (Returns (), db\<lparr>nodes := put_node r data (nodes db)\<rparr>)),
       db_get = (\<lambda>r db.
         (Returns (concat (map (\<lambda>(r', content). if r' \<noteq> [] \<and> butlast r' = r then [(last r', content)] else [])
                     (nodes db))), db)),
       db_remove = (\<lambda>r db. (Returns (), db\<lparr>nodes := filter (\<lambda>(r', content). r' \<noteq> r) (nodes db)\<rparr>)) \<rparr>"

text \<open>
  A database whose every call is rejected with the value \<open>e\<close>, and one that hands out
  references but rejects every read and write.
\<close>

definition rejecting_database :: "js_value \<Rightarrow> unit database_sdk" where
  "rejecting_database e =
     \<lparr> db_push = (\<lambda>r. throws e),
       db_child = (\<lambda>r ident. throws e),
       db_set = (\<lambda>r data. throws e),
       db_get = (\<lambda>r. throws e),
       db_remove = (\<lambda>r. throws e) \<rparr>"

definition permission_denied :: js_value where
  "permission_denied = JError ''PERMISSION_DENIED: Permission denied''"

definition read_only_database :: "unit database_sdk" where
  "read_only_database =
     \<lparr> db_push = (\<lambda>r. returns (r @ [''-N0''])),
       db_child = (\<lambda>r ident.
         (case ident of
            JStr name \<Rightarrow> returns (r @ [name])
          | _ \<Rightarrow> throws (JError ''child failed: path argument was an invalid path''))),
       db_set = (\<lambda>r data. throws permission_denied),
       db_get = (\<lambda>r. throws permission_denied),
       db_remove = (\<lambda>r. throws permission_denied) \<rparr>"

text \<open>A collaborator that never rejects a call with \<open>null\<close> or \<open>undefined\<close>.\<close>

definition rejects_with_values_database :: "'s database_sdk \<Rightarrow> bool" where
  "rejects_with_values_database sdk =
     (\<forall>r v s e s'.
        (db_push sdk r s = (Throws e, s') \<longrightarrow> \<not> nullish e)
      \<and> (db_child sdk r v s = (Throws e, s') \<longrightarrow> \<not> nullish e)
      \<and> (db_set sdk r v s = (Throws e, s') \<longrightarrow> \<not> nullish e)
      \<and> (db_get sdk r s = (Throws e, s') \<longrightarrow> \<not> nullish e)
      \<and> (db_remove sdk r s = (Throws e, s') \<longrightarrow> \<not> nullish e))"

section \<open>Authentication: the wrapper's methods\<close>

text \<open>
  The authentication service the constructor is given (\<open>this.auth\<close>), one field for
  each of its methods the class calls; \<open>auth_toJSON\<close> is the \<open>toJSON()\<close> method of
  the user record it returns. \<open>loginUser\<close> calls the client SDK instead, the module's
  import \<open>firebase\<close>: \<open>firebase.auth().signInWithEmailAndPassword\<close>.
\<close>

record 's auth_service =
  auth_createUser :: "js_value \<Rightarrow> (js_value, 's) action"
  auth_generateEmailVerificationLink :: "js_value \<Rightarrow> (js_value, 's) action"
  auth_updateUser :: "js_value \<Rightarrow> js_value \<Rightarrow> (js_value, 's) action"
  auth_toJSON :: "js_value \<Rightarrow> (js_value, 's) action"
  auth_getUser :: "js_value \<Rightarrow> (js_value, 's) action"
  auth_deleteUser :: "js_value \<Rightarrow> (js_value, 's) action"
  auth_createSessionCookie :: "js_value \<Rightarrow> js_value \<Rightarrow> (js_value, 's) action"
  auth_verifySessionCookie :: "js_value \<Rightarrow> js_value \<Rightarrow> (js_value, 's) action"
  auth_sendPasswordResetEmail :: "js_value \<Rightarrow> (js_value, 's) action"
  auth_listUsers :: "(js_value, 's) action"

record 's firebase_client =
  signInWithEmailAndPassword :: "js_value \<Rightarrow> js_value \<Rightarrow> (js_value, 's) action"

definition createUser :: "'s auth_service \<Rightarrow> js_value \<Rightarrow> (js_value, 's) action" where
  "createUser auth userData =
     try_catch
       (await (auth_createUser auth userData) (\<lambda>userRecord.
        await (of_outcome (get_property userRecord ''uid'')) (\<lambda>u.
        returns (JArr [JBool True, u]))))
       return_failure"

definition verificationEmail :: "'s auth_service \<Rightarrow> js_value \<Rightarrow> (js_value, 's) action" where
  "verificationEmail auth email = auth_generateEmailVerificationLink auth email"

definition loginUser :: "'s firebase_client \<Rightarrow> js_value \<Rightarrow> js_value \<Rightarrow> (js_value, 's) action" where
  "loginUser firebase email password =
     try_catch
       (await (signInWithEmailAndPassword firebase email password) (\<lambda>userRecord.
        await (of_outcome (get_property userRecord ''user'')) (\<lambda>user.
        await (of_outcome (get_property user ''uid'')) (\<lambda>u.
        returns (JArr [JBool True, u])))))
       return_failure"

definition updateUser :: "'s auth_service \<Rightarrow> js_value \<Rightarrow> js_value \<Rightarrow> (js_value, 's) action" where
  "updateUser auth u updateUserData =
     try_catch
       (await (auth_updateUser auth u updateUserData) (\<lambda>userRecord.
        await (auth_toJSON auth userRecord) (\<lambda>json.
        returns (JArr [JBool True, json]))))
       return_failure"

definition getUser :: "'s auth_service \<Rightarrow> js_value \<Rightarrow> (js_value, 's) action" where
  "getUser auth u =
     try_catch
       (await (auth_getUser auth u) (\<lambda>user.
        returns (JArr [JBool True, user])))
       return_failure"

definition deleteUser :: "'s auth_service \<Rightarrow> js_value \<Rightarrow> (js_value, 's) action" where
  "deleteUser auth u =
     try_catch
       (await (auth_deleteUser auth u) (\<lambda>_.
        returns (JArr [JBool True, u])))
       return_failure"

definition createPhoneVerification :: "'s auth_service \<Rightarrow> js_value \<Rightarrow> (js_value, 's) action" where
  "createPhoneVerification auth phoneNumber =
     try_catch
       (await (auth_createSessionCookie auth phoneNumber (JObj [(''expiresIn'', JNum 3600)])) (\<lambda>request.
        returns request))
       return_failure"

definition verifyPhoneVerification :: "'s auth_service \<Rightarrow> js_value \<Rightarrow> js_value \<Rightarrow> (js_value, 's) action" where
  "verifyPhoneVerification auth verificationId otp =
     try_catch
       (await (auth_verifySessionCookie auth verificationId otp) (\<lambda>userCreds.
        returns userCreds))
       return_failure"

definition resetPassword :: "'s auth_service \<Rightarrow> js_value \<Rightarrow> (js_value, 's) action" where
  "resetPassword auth email =
     try_catch
       (await (auth_sendPasswordResetEmail auth email) (\<lambda>request.
        returns request))
       return_failure"

text \<open>
  In \<open>getUsers\<close>, the callback mapped over the users reads
  \<open>new Firestore("users", userRecord.uid)\<close>, but the module imports only
  \<open>firebase\<close>: the name \<open>Firestore\<close> is not bound there, so evaluating it throws a
  \<open>ReferenceError\<close> inside the inner \<open>try\<close>, before \<open>userRecord.uid\<close> is
  read. The inner \<open>catch\<close> then sets \<open>userData\<close>.
\<close>

definition user_data :: "js_value \<Rightarrow> js_value outcome" where
  "user_data userRecord = Throws (ReferenceError ''Firestore is not defined'')"

definition with_user_data :: "js_value \<Rightarrow> js_value" where
  "with_user_data userRecord =
     (let userData =
        (case user_data userRecord of
           Returns d \<Rightarrow> d
         | Throws _ \<Rightarrow> JObj [(''error'', JStr ''No user data found'')])
      in JObj (spread (spread [] userRecord) userData))"

text \<open>\<open>users.map(f)\<close>: only an array has the method.\<close>

fun array_map :: "(js_value \<Rightarrow> js_value) \<Rightarrow> js_value \<Rightarrow> js_value list outcome" where
  "array_map f (JArr xs) = Returns (map f xs)"
| "array_map f JUndefined =
     Throws (TypeError (''Cannot read properties of undefined (reading '' @ quoted ''map'' @ '')''))"
| "array_map f JNull =
     Throws (TypeError (''Cannot read properties of null (reading '' @ quoted ''map'' @ '')''))"
| "array_map f _ = Throws (TypeError ''listUsersResult.users.map is not a function'')"

definition getUsers :: "'s auth_service \<Rightarrow> (js_value, 's) action" where
  "getUsers auth =
     try_catch
       (await (auth_listUsers auth) (\<lambda>listUsersResult.
        await (of_outcome (get_property listUsersResult ''users'')) (\<lambda>userRecords.
        await (of_outcome (array_map with_user_data userRecords)) (\<lambda>users.
        returns (JArr users)))))
       return_failure"

text \<open>
  Services to run the methods on: one that answers every call with a fixed value (a link,
  a cookie, a user record), one whose user records cannot be serialised, and one whose
  every call is rejected with the value \<open>e\<close>.
\<close>

definition sample_user :: js_value where
  "sample_user = JObj [(''uid'', JStr ''u1''), (''email'', JStr ''a@b.c'')]"

definition sample_auth :: "unit auth_service" where
  "sample_auth =
     \<lparr> auth_createUser = (\<lambda>userData. returns sample_user),
       auth_generateEmailVerificationLink = (\<lambda>email. returns (JStr ''https://example.test/verify'')),
       auth_updateUser = (\<lambda>u updateUserData. returns sample_user),
       auth_toJSON = (\<lambda>userRecord. returns userRecord),
       auth_getUser = (\<lambda>u. returns sample_user),
       auth_deleteUser = (\<lambda>u. returns JUndefined),
       auth_createSessionCookie = (\<lambda>phoneNumber options. returns (JStr ''cookie'')),
       auth_verifySessionCookie = (\<lambda>verificationId otp. returns sample_user),
       auth_sendPasswordResetEmail = (\<lambda>email. returns JUndefined),
       auth_listUsers = returns (JObj [(''users'', JArr [sample_user])]) \<rparr>"

definition opaque_auth :: "unit auth_service" where
  "opaque_auth = sample_auth \<lparr> auth_toJSON := (\<lambda>userRecord. throws (TypeError ''userRecord.toJSON is not a function'')) \<rparr>"

definition rejecting_auth :: "js_value \<Rightarrow> unit auth_service" where
  "rejecting_auth e =
     \<lparr> auth_createUser = (\<lambda>userData. throws e),
       auth_generateEmailVerificationLink = (\<lambda>email. throws e),
       auth_updateUser = (\<lambda>u updateUserData. throws e),
       auth_toJSON = (\<lambda>userRecord. throws e),
       auth_getUser = (\<lambda>u. throws e),
       auth_deleteUser = (\<lambda>u. throws e),
       auth_createSessionCookie = (\<lambda>phoneNumber options. throws e),
       auth_verifySessionCookie = (\<lambda>verificationId otp. throws e),
       auth_sendPasswordResetEmail = (\<lambda>email. throws e),
       auth_listUsers = throws e \<rparr>"

definition sample_client :: "unit firebase_client" where
  "sample_client =
     \<lparr> signInWithEmailAndPassword = (\<lambda>email password. returns (JObj [(''user'', sample_user)])) \<rparr>"

definition rejecting_client :: "js_value \<Rightarrow> unit firebase_client" where
  "rejecting_client e = \<lparr> signInWithEmailAndPassword = (\<lambda>email password. throws e) \<rparr>"

text \<open>Services that never reject a call with \<open>null\<close> or \<open>undefined\<close>.\<close>

definition rejects_with_values_auth :: "'s auth_service \<Rightarrow> bool" where
  "rejects_with_values_auth auth =
     (\<forall>a b s e s'.
        (auth_createUser auth a s = (Throws e, s') \<longrightarrow> \<not> nullish e)
      \<and> (auth_updateUser auth a b s = (Throws e, s') \<longrightarrow> \<not> nullish e)
      \<and> (auth_toJSON auth a s = (Throws e, s') \<longrightarrow> \<not> nullish e)
      \<and> (auth_getUser auth a s = (Throws e, s') \<longrightarrow> \<not> nullish e)
      \<and> (auth_deleteUser auth a s = (Throws e, s') \<longrightarrow> \<not> nullish e)
      \<and> (auth_createSessionCookie auth a b s = (Throws e, s') \<longrightarrow> \<not> nullish e)
      \<and> (auth_verifySessionCookie auth a b s = (Throws e, s') \<longrightarrow> \<not> nullish e)
      \<and> (auth_sendPasswordResetEmail auth a s = (Throws e, s') \<longrightarrow> \<not> nullish e)
      \<and> (auth_listUsers auth s = (Throws e, s') \<longrightarrow> \<not> nullish e))"

definition rejects_with_values_client :: "'s firebase_client \<Rightarrow> bool" where
  "rejects_with_values_client firebase =
     (\<forall>a b s e s'. signInWithEmailAndPassword firebase a b s = (Throws e, s') \<longrightarrow> \<not> nullish e)"

section \<open>Sequencing and catching\<close>

lemma await_returns [simp]: "await (returns x) f s = f x s"
  by (simp add: await_def returns_def)

lemma await_throws [simp]: "await (throws e) f s = (Throws e, s)"
  by (simp add: await_def throws_def)

lemma await_of_outcome_Returns [simp]: "await (of_outcome (Returns x)) f s = f x s"
  by (simp add: await_def of_outcome_def)

lemma await_of_outcome_Throws [simp]: "await (of_outcome (Throws e)) f s = (Throws e, s)"
  by (simp add: await_def of_outcome_def)

lemma await_Returns: "m s = (Returns x, s') \<Longrightarrow> await m f s = f x s'"
  by (simp add: await_def)

lemma await_Throws: "m s = (Throws e, s') \<Longrightarrow> await m f s = (Throws e, s')"
  by (simp add: await_def)

lemma await_cases:
  obtains (throws) e s' where "m s = (Throws e, s')" "await m f s = (Throws e, s')"
        | (returns) x s' where "m s = (Returns x, s')" "await m f s = f x s'"
proof (cases "m s")
  case (Pair r s')
  then show ?thesis
    by (cases r) (auto simp: await_def intro: throws returns)
qed

lemma try_catch_Returns: "m s = (Returns x, s') \<Longrightarrow> try_catch m h s = (Returns x, s')"
  by (simp add: try_catch_def)

lemma try_catch_Throws: "m s = (Throws e, s') \<Longrightarrow> try_catch m h s = h e s'"
  by (simp add: try_catch_def)

text \<open>
  The common handler returns \<open>[false, error.message]\<close> for every thrown value but
  \<open>null\<close> and \<open>undefined\<close>, of which it cannot read \<open>message\<close>.
\<close>

lemma message_of_value: "\<not> nullish e \<Longrightarrow> \<exists>m. get_property e ''message'' = Returns m"
  by (cases e) (simp_all add: nullish_def)

lemma return_failure_message:
  "get_property e ''message'' = Returns m \<Longrightarrow>
   return_failure e s = (Returns (JArr [JBool False, m]), s)"
  by (simp add: return_failure_def returns_def)

lemma return_failure_nullish: "nullish e \<Longrightarrow> threw (return_failure e s)"
  by (auto simp: nullish_def return_failure_def)

lemma caught_Throws:
  "m s = (Throws e, s') \<Longrightarrow> get_property e ''message'' = Returns msg \<Longrightarrow>
   try_catch m return_failure s = (Returns (JArr [JBool False, msg]), s')"
  by (simp add: try_catch_Throws return_failure_message)

lemma caught_never_throws:
  assumes "\<And>e s'. m s = (Throws e, s') \<Longrightarrow> \<not> nullish e"
  shows "\<not> threw (try_catch m return_failure s)"
proof (cases "m s")
  case (Pair r s')
  show ?thesis
  proof (cases r)
    case (Returns x)
    with Pair show ?thesis by (simp add: try_catch_def)
  next
    case (Throws e)
    with Pair assms have "\<not> nullish e" by blast
    then obtain msg where "get_property e ''message'' = Returns msg"
      using message_of_value by blast
    with Pair Throws show ?thesis by (simp add: caught_Throws)
  qed
qed

lemma not_nullish_JError [simp]: "\<not> nullish (JError msg)"
  by (simp add: nullish_def)

lemma not_nullish_TypeError [simp]: "\<not> nullish (TypeError msg)"
  by (simp add: TypeError_def)

lemma outcome_not_nullish:
  "get_property v k = Throws e \<Longrightarrow> \<not> nullish e"
  by (cases v) (auto split: if_splits)

lemma Object_values_not_nullish: "Object_values v = Throws e \<Longrightarrow> \<not> nullish e"
  by (cases v) auto

lemma array_map_not_nullish: "array_map f v = Throws e \<Longrightarrow> \<not> nullish e"
  by (cases v) auto

section \<open>Properties of the nested reference\<close>

lemma split_on_no_separator: "c \<notin> set s \<Longrightarrow> split_on c s = [s]"
  by (induction s) auto

lemma split_on_not_empty: "split_on c s \<noteq> []"
  by (induction s) (auto split: list.splits)

lemma split_on_segments: "w \<in> set (split_on c s) \<Longrightarrow> c \<notin> set w"
proof (induction s arbitrary: w)
  case Nil
  then show ?case by simp
next
  case (Cons x s)
  show ?case
  proof (cases "x = c")
    case True
    with Cons show ?thesis by auto
  next
    case False
    obtain v vs where vs: "split_on c s = v # vs"
      using split_on_not_empty [of c s] by (cases "split_on c s") auto
    with False Cons.prems have "w = x # v \<or> w \<in> set vs" by auto
    then show ?thesis
    proof
      assume "w = x # v"
      moreover have "c \<notin> set v" using Cons.IH [of v] vs by simp
      ultimately show ?thesis using False by auto
    next
      assume "w \<in> set vs"
      then show ?thesis using Cons.IH [of w] vs by simp
    qed
  qed
qed

lemma resource_segments_valid: "list_all valid_id (resource_segments path)"
  by (auto simp: resource_segments_def valid_id_def list_all_iff dest: split_on_segments)

lemma resource_segments_id: "valid_id seg \<Longrightarrow> resource_segments seg = [seg]"
  by (simp add: resource_segments_def valid_id_def split_on_no_separator)

lemma no_double_slash: "CHR ''/'' \<notin> set s \<Longrightarrow> \<not> has_double_slash s"
  by (induction s rule: has_double_slash.induct) auto

lemma validateResourcePath_id: "valid_id seg \<Longrightarrow> validateResourcePath arg seg = Returns ()"
  by (simp add: validateResourcePath_def valid_id_def no_double_slash)

lemma sdk_doc_id:
  "valid_id seg \<Longrightarrow> odd (length segs) \<Longrightarrow>
   sdk_doc (CollectionRef segs) seg = Returns (DocumentRef (segs @ [seg]))"
  by (simp add: validateResourcePath_id resource_segments_id)

lemma sdk_subcollection_id:
  "valid_id seg \<Longrightarrow> even (length segs) \<Longrightarrow>
   sdk_subcollection (DocumentRef segs) seg = Returns (CollectionRef (segs @ [seg]))"
  by (simp add: validateResourcePath_id resource_segments_id)

lemma sdk_doc_returns_document: "sdk_doc r path = Returns d \<Longrightarrow> \<exists>segs. d = DocumentRef segs"
  by (cases r) (auto simp: Let_def split: outcome.splits if_splits)

lemma sdk_subcollection_returns_collection:
  "sdk_subcollection r path = Returns c \<Longrightarrow> \<exists>segs. c = CollectionRef segs"
  by (cases r) (auto simp: Let_def split: outcome.splits if_splits)

text \<open>An instance the constructor returned holds a collection reference.\<close>

lemma constructed_collection:
  assumes "constructed self"
  shows "\<exists>base. collection self = CollectionRef base \<and> odd (length base) \<and> list_all valid_id base"
proof -
  from assms obtain c where c: "sdk_collection (collectionName self) = Returns c" "collection self = c"
    by (cases "sdk_collection (collectionName self)")
       (auto simp: constructed_def new_Firestore_def dest: arg_cong [where f = collection])
  then have "c = CollectionRef (resource_segments (collectionName self))
      \<and> odd (length (resource_segments (collectionName self)))"
    by (auto simp: sdk_collection_def Let_def split: outcome.splits if_splits)
  with c resource_segments_valid show ?thesis by blast
qed

text \<open>
  From an even index \<open>2 * k\<close> on, with segments that are identifiers, the loop appends
  the remaining segments: it ends on a collection when all are paired, on a document when
  one is left over.
\<close>

lemma nested_loop_done: "length paths \<le> i \<Longrightarrow> nested_loop paths i r = Returns r"
  by (subst nested_loop.simps) simp

lemma nested_loop_from:
  assumes "list_all valid_id paths" and "odd (length base)"
  shows "k \<le> length paths div 2 \<Longrightarrow>
   nested_loop paths (2 * k) (CollectionRef (base @ take (2 * k) paths)) =
     Returns (if odd (length paths) then DocumentRef (base @ paths) else CollectionRef (base @ paths))"
proof (induction "length paths div 2 - k" arbitrary: k)
  case 0
  then have k: "k = length paths div 2" by simp
  show ?case
  proof (cases "odd (length paths)")
    case True
    then have len: "length paths = 2 * k + 1" using k by presburger
    then have tk: "take (2 * k) paths @ [paths ! (2 * k)] = paths"
      by (metis Suc_eq_plus1 lessI take_Suc_conv_app_nth take_all order_refl)
    have v: "valid_id (paths ! (2 * k))" using assms(1) len by (simp add: list_all_length)
    have o: "odd (length (base @ take (2 * k) paths))" using assms(2) len by simp
    have "nested_loop paths (2 * k) (CollectionRef (base @ take (2 * k) paths))
        = Returns (DocumentRef ((base @ take (2 * k) paths) @ [paths ! (2 * k)]))"
      by (subst nested_loop.simps) (simp add: len sdk_doc_id [OF v o] nested_loop_done del: sdk_doc.simps)
    then show ?thesis using True tk by simp
  next
    case False
    then have len: "length paths = 2 * k" using k by presburger
    have "nested_loop paths (2 * k) (CollectionRef (base @ take (2 * k) paths))
        = Returns (CollectionRef (base @ take (2 * k) paths))"
      by (subst nested_loop.simps) (simp add: len)
    then show ?thesis using False len by simp
  qed
next
  case (Suc n)
  then have lt: "k < length paths div 2" by simp
  then have i: "2 * k + 1 < length paths" by presburger
  have v1: "valid_id (paths ! (2 * k))" and v2: "valid_id (paths ! (2 * k + 1))"
    using assms(1) i by (simp_all add: list_all_length)
  have o: "odd (length (base @ take (2 * k) paths))" using assms(2) i by simp
  then have e: "even (length ((base @ take (2 * k) paths) @ [paths ! (2 * k)]))" by simp
  have tk: "take (Suc (Suc (2 * k))) paths = take (2 * k) paths @ [paths ! (2 * k), paths ! Suc (2 * k)]"
  proof -
    have "take (Suc (Suc (2 * k))) paths = take (Suc (2 * k)) paths @ [paths ! Suc (2 * k)]"
      using i by (simp add: take_Suc_conv_app_nth)
    moreover have "take (Suc (2 * k)) paths = take (2 * k) paths @ [paths ! (2 * k)]"
      using i by (simp add: take_Suc_conv_app_nth)
    ultimately show ?thesis by simp
  qed
  have d: "sdk_doc (CollectionRef (base @ take (2 * k) paths)) (paths ! (2 * k))
      = Returns (DocumentRef (base @ take (2 * k) paths @ [paths ! (2 * k)]))"
    using sdk_doc_id [OF v1 o] by simp
  have sub: "sdk_subcollection (DocumentRef (base @ take (2 * k) paths @ [paths ! (2 * k)]))
        (paths ! Suc (2 * k))
      = Returns (CollectionRef (base @ take (Suc (Suc (2 * k))) paths))"
    using sdk_subcollection_id [OF v2] e tk by simp
  have step: "nested_loop paths (2 * k) (CollectionRef (base @ take (2 * k) paths))
      = nested_loop paths (2 * Suc k) (CollectionRef (base @ take (2 * Suc k) paths))"
    using i
    by (subst nested_loop.simps)
       (simp add: d sub del: sdk_doc.simps sdk_subcollection.simps)
  have n: "n = length paths div 2 - Suc k" using Suc.hyps(2) by simp
  have le: "Suc k \<le> length paths div 2" using lt by simp
  show ?case by (simp only: step Suc.hyps(1) [OF n le])
qed

lemma nested_loop_whole:
  assumes "list_all valid_id paths" and "odd (length base)"
  shows "nested_loop paths 0 (CollectionRef base) =
     Returns (if odd (length paths) then DocumentRef (base @ paths) else CollectionRef (base @ paths))"
  using nested_loop_from [OF assms, of 0] by simp

text \<open>The pairs of a path of even length are its segments, two by two.\<close>

lemma concat_pairs: "n \<le> length paths div 2 \<Longrightarrow> concat (map (pair_at paths) [0..<n]) = take (2 * n) paths"
proof (induction n)
  case 0
  then show ?case by simp
next
  case (Suc n)
  then have i: "2 * n + 1 < length paths" by presburger
  have "take (Suc (Suc (2 * n))) paths = take (Suc (2 * n)) paths @ [paths ! Suc (2 * n)]"
    using i by (simp add: take_Suc_conv_app_nth)
  moreover have "take (Suc (2 * n)) paths = take (2 * n) paths @ [paths ! (2 * n)]"
    using i by (simp add: take_Suc_conv_app_nth)
  ultimately show ?case using Suc by (simp add: pair_at_def)
qed

lemma descend_pairs_take: "descend_pairs paths = take (2 * (length paths div 2)) paths"
  by (simp add: descend_pairs_def concat_pairs)

lemma descend_pairs_even: "even (length paths) \<Longrightarrow> descend_pairs paths = paths"
  by (simp add: descend_pairs_take)

lemma length_descend_pairs: "length (descend_pairs paths) = 2 * (length paths div 2)"
  by (simp add: descend_pairs_take)

text \<open>
  With an odd number of segments, whatever they are, the loop ends on a document
  reference if it ends at all.
\<close>

lemma nested_loop_odd:
  assumes "odd (length paths)"
  shows "k \<le> length paths div 2 \<Longrightarrow>
    nested_loop paths (2 * k) (CollectionRef c) = Returns r \<Longrightarrow> \<exists>segs. r = DocumentRef segs"
proof (induction "length paths div 2 - k" arbitrary: k c)
  case 0
  then have k: "k = length paths div 2" by simp
  with assms have len: "length paths = 2 * k + 1" by presburger
  from 0(3) obtain d where d: "sdk_doc (CollectionRef c) (paths ! (2 * k)) = Returns d"
      and rest: "nested_loop paths (2 * k + 2) d = Returns r"
    by (subst (asm) nested_loop.simps) (simp add: len split: outcome.splits del: sdk_doc.simps)
  from rest have "r = d" by (simp add: nested_loop_done len)
  with sdk_doc_returns_document [OF d] show ?case by simp
next
  case (Suc n)
  then have lt: "k < length paths div 2" by simp
  then have i: "2 * k + 1 < length paths" by presburger
  from Suc(4) obtain d sub where "sdk_doc (CollectionRef c) (paths ! (2 * k)) = Returns d"
      and sub: "sdk_subcollection d (paths ! (2 * k + 1)) = Returns sub"
      and rest: "nested_loop paths (2 * k + 2) sub = Returns r"
    using i
    by (subst (asm) nested_loop.simps)
       (simp split: outcome.splits del: sdk_doc.simps sdk_subcollection.simps)
  from sdk_subcollection_returns_collection [OF sub] obtain c' where c': "sub = CollectionRef c'"
    by blast
  have "n = length paths div 2 - Suc k" using Suc.hyps(2) by simp
  moreover have "Suc k \<le> length paths div 2" using lt by simp
  moreover have "nested_loop paths (2 * Suc k) (CollectionRef c') = Returns r"
    using rest c' by simp
  ultimately show ?case using Suc.hyps(1) by blast
qed

lemma sdk_doc_of_document [simp]:
  "of_outcome (sdk_doc (DocumentRef segs) name) s = (Throws (TypeError ''collectionRef.doc is not a function''), s)"
  by (simp add: of_outcome_def)

lemma getNestedCollectionReference_even:
  assumes c: "collection self = CollectionRef base" and o: "odd (length base)"
    and e: "even (length (nestedPaths self))"
    and v: "list_all valid_id (nestedPaths self)"
  shows "getNestedCollectionReference sdk self None s =
           (Returns (DocumentRef (base @ nestedPaths self @ [fst (autoId sdk s)])), snd (autoId sdk s))"
    and "getNestedCollectionReference sdk self (Some []) s =
           (Returns (DocumentRef (base @ nestedPaths self @ [fst (autoId sdk s)])), snd (autoId sdk s))"
    and "valid_id name \<Longrightarrow> getNestedCollectionReference sdk self (Some name) s =
           (Returns (DocumentRef (base @ nestedPaths self @ [name])), s)"
proof -
  have loop: "nested_loop (nestedPaths self) 0 (collection self) = Returns (CollectionRef (base @ nestedPaths self))"
    using nested_loop_whole [OF v o] e c by simp
  have ob: "odd (length (base @ nestedPaths self))" using o e by simp
  show "getNestedCollectionReference sdk self None s =
           (Returns (DocumentRef (base @ nestedPaths self @ [fst (autoId sdk s)])), snd (autoId sdk s))"
    by (simp add: getNestedCollectionReference_def loop split: prod.splits)
  show "getNestedCollectionReference sdk self (Some []) s =
           (Returns (DocumentRef (base @ nestedPaths self @ [fst (autoId sdk s)])), snd (autoId sdk s))"
    by (simp add: getNestedCollectionReference_def loop split: prod.splits)
  show "getNestedCollectionReference sdk self (Some name) s =
           (Returns (DocumentRef (base @ nestedPaths self @ [name])), s)" if "valid_id name"
    using that sdk_doc_id [OF that ob]
    by (simp add: getNestedCollectionReference_def loop valid_id_def of_outcome_def del: sdk_doc.simps)
qed

lemma getNestedCollectionReference_odd:
  assumes c: "collection self = CollectionRef base" and o: "odd (length (nestedPaths self))"
  shows "threw (getNestedCollectionReference sdk self u s)"
proof (cases "nested_loop (nestedPaths self) 0 (collection self)")
  case (Throws e)
  then show ?thesis by (simp add: getNestedCollectionReference_def)
next
  case (Returns r)
  then obtain segs where "r = DocumentRef segs"
    using nested_loop_odd [OF o, of 0 base r] c by auto
  with Returns show ?thesis
    by (cases u) (simp_all add: getNestedCollectionReference_def of_outcome_def)
qed

text \<open>Whatever the instance, a reference the method returns is a document reference.\<close>

lemma sdk_auto_doc_returns_document:
  "sdk_auto_doc sdk r s = (Returns d, s') \<Longrightarrow> \<exists>segs. d = DocumentRef segs"
  by (cases r) (auto split: prod.splits)

lemma getNestedCollectionReference_returns_document:
  assumes "getNestedCollectionReference sdk self u s = (Returns d, s')"
  shows "\<exists>segs. d = DocumentRef segs"
proof (cases "nested_loop (nestedPaths self) 0 (collection self)")
  case (Throws e)
  with assms show ?thesis by (simp add: getNestedCollectionReference_def)
next
  case (Returns r)
  show ?thesis
  proof (cases "u = None \<or> u = Some []")
    case True
    with assms Returns have "sdk_auto_doc sdk r s = (Returns d, s')"
      by (auto simp: getNestedCollectionReference_def)
    then show ?thesis by (rule sdk_auto_doc_returns_document)
  next
    case False
    then obtain name where "u = Some name" "name \<noteq> []" by (cases u) auto
    with assms Returns have "sdk_doc r name = Returns d"
      by (cases "sdk_doc r name") (auto simp: getNestedCollectionReference_def of_outcome_def)
    then show ?thesis by (rule sdk_doc_returns_document)
  qed
qed

text \<open>
  The segments of a reference made of identifiers stay identifiers, and a collection the
  loop ends on has a path of odd length.
\<close>

lemma sdk_doc_segments:
  assumes "sdk_doc (CollectionRef b) path = Returns d" and "list_all valid_id b"
  shows "\<exists>segs. d = DocumentRef segs \<and> list_all valid_id segs"
  using assms resource_segments_valid [of path]
  by (auto simp: Let_def split: outcome.splits if_splits)

lemma sdk_subcollection_segments:
  assumes "sdk_subcollection (DocumentRef segs) path = Returns sub" and "list_all valid_id segs"
  shows "\<exists>c. sub = CollectionRef c \<and> odd (length c) \<and> list_all valid_id c"
  using assms resource_segments_valid [of path]
  by (auto simp: Let_def split: outcome.splits if_splits)

lemma nested_loop_collection:
  "nested_loop paths i r = Returns (CollectionRef c) \<Longrightarrow>
   (\<And>b. r = CollectionRef b \<Longrightarrow> odd (length b) \<and> list_all valid_id b) \<Longrightarrow>
   odd (length c) \<and> list_all valid_id c"
proof (induction paths i r rule: nested_loop.induct)
  case (1 paths i r)
  show ?case
  proof (cases "i < length paths")
    case False
    with "1.prems"(1) have "r = CollectionRef c" by (simp add: nested_loop_done)
    then show ?thesis by (rule "1.prems"(2))
  next
    case True
    show ?thesis
    proof (cases "length paths > i + 1")
      case False
      with True "1.prems"(1) obtain d where d: "sdk_doc r (paths ! i) = Returns d"
          and rest: "nested_loop paths (i + 2) d = Returns (CollectionRef c)"
        by (subst (asm) nested_loop.simps) (simp split: outcome.splits del: sdk_doc.simps)
      from rest False True have "d = CollectionRef c" by (simp add: nested_loop_done)
      with sdk_doc_returns_document [OF d] show ?thesis by simp
    next
      case long: True
      with True "1.prems"(1) obtain d sub where d: "sdk_doc r (paths ! i) = Returns d"
          and sub: "sdk_subcollection d (paths ! (i + 1)) = Returns sub"
          and rest: "nested_loop paths (i + 2) sub = Returns (CollectionRef c)"
        by (subst (asm) nested_loop.simps)
           (simp split: outcome.splits del: sdk_doc.simps sdk_subcollection.simps)
      from d obtain b where b: "r = CollectionRef b" by (cases r) auto
      from "1.prems"(2) [OF b] have "list_all valid_id b" by simp
      from sdk_doc_segments [OF d [unfolded b] this] obtain segs
        where segs: "d = DocumentRef segs" "list_all valid_id segs" by blast
      from sdk_subcollection_segments [OF sub [unfolded segs(1)] segs(2)]
      have valid: "\<And>b'. sub = CollectionRef b' \<Longrightarrow> odd (length b') \<and> list_all valid_id b'"
        by auto
      from "1.IH"(1) [OF True long d sub rest valid] show ?thesis .
    qed
  qed
qed

section \<open>Firestore: the nested reference\<close>

text \<open>
  Claim C3, for an instance the constructor returned whose \<open>nestedPaths\<close> has even
  length and holds identifiers (non-empty strings without \<open>/\<close>), and a \<open>uid\<close>
  without \<open>/\<close>. \<open>getNestedCollectionReference\<close> descends the
  \<open>length / 2\<close> (document id, sub-collection name) pairs of the path, in order from
  the collection of the instance, which are all the segments of the path. It then returns
  the document named by the uid when the uid is a non-empty string. When the uid is
  absent or the empty string, it returns a document of that collection under the id the
  SDK generates.
\<close>

theorem even_nested_path_descends_pairs:
  assumes "constructed self"
    and "even (length (nestedPaths self))"
    and "list_all valid_id (nestedPaths self)"
    and "\<forall>name. u = Some name \<longrightarrow> CHR ''/'' \<notin> set name"
  shows "getNestedCollectionReference sdk self u s =
      (case u of
         None \<Rightarrow>
           (Returns (DocumentRef (segments (collection self) @ descend_pairs (nestedPaths self)
              @ [fst (autoId sdk s)])), snd (autoId sdk s))
       | Some name \<Rightarrow>
           if name = [] then
             (Returns (DocumentRef (segments (collection self) @ descend_pairs (nestedPaths self)
                @ [fst (autoId sdk s)])), snd (autoId sdk s))
           else
             (Returns (DocumentRef (segments (collection self) @ descend_pairs (nestedPaths self)
                @ [name])), s))
    \<and> descend_pairs (nestedPaths self) = nestedPaths self
    \<and> length (descend_pairs (nestedPaths self)) = 2 * (length (nestedPaths self) div 2)"
proof -
  from constructed_collection [OF assms(1)] obtain base
    where base: "collection self = CollectionRef base" "odd (length base)" by blast
  note even = getNestedCollectionReference_even [OF base assms(2,3)]
  have pairs: "descend_pairs (nestedPaths self) = nestedPaths self"
    using assms(2) by (rule descend_pairs_even)
  have "getNestedCollectionReference sdk self u s =
      (case u of
         None \<Rightarrow>
           (Returns (DocumentRef (base @ nestedPaths self @ [fst (autoId sdk s)])), snd (autoId sdk s))
       | Some name \<Rightarrow>
           if name = [] then
             (Returns (DocumentRef (base @ nestedPaths self @ [fst (autoId sdk s)])), snd (autoId sdk s))
           else (Returns (DocumentRef (base @ nestedPaths self @ [name])), s))"
  proof (cases u)
    case None
    then show ?thesis by (simp add: even(1))
  next
    case (Some name)
    show ?thesis
    proof (cases "name = []")
      case True
      with Some show ?thesis by (simp add: even(2))
    next
      case False
      with Some assms(4) have "valid_id name" by (simp add: valid_id_def)
      with Some False show ?thesis by (simp add: even(3))
    qed
  qed
  then show ?thesis
    unfolding pairs base(1) segments.simps using assms(2) by simp
qed

theorem even_nested_path_descends_pairs_witness:
  "getNestedCollectionReference memory_firestore
     \<lparr>collectionName = ''users'', collection = CollectionRef [''users''], uid = Some ''order1'',
      nestedPaths = [''userA'', ''orders'']\<rparr> (Some ''order1'') []
   = (Returns (DocumentRef [''users'', ''userA'', ''orders'', ''order1'']), [])
   \<and> getNestedCollectionReference memory_firestore
     \<lparr>collectionName = ''users'', collection = CollectionRef [''users''], uid = Some ''order1'',
      nestedPaths = [''userA'', ''orders'']\<rparr> None []
   = (Returns (DocumentRef [''users'', ''userA'', ''orders'', ''a'']), [])"
  using even_nested_path_descends_pairs [of
      "\<lparr>collectionName = ''users'', collection = CollectionRef [''users''], uid = Some ''order1'',
        nestedPaths = [''userA'', ''orders'']\<rparr>" "Some ''order1''" memory_firestore "[]"]
    even_nested_path_descends_pairs [of
      "\<lparr>collectionName = ''users'', collection = CollectionRef [''users''], uid = Some ''order1'',
        nestedPaths = [''userA'', ''orders'']\<rparr>" None memory_firestore "[]"]
  by (simp add: constructed_def new_Firestore_def sdk_collection_def validateResourcePath_def
      resource_segments_def valid_id_def descend_pairs_def pair_at_def memory_firestore_def
      fresh_id_def)

text \<open>
  The empty string is a uid the caller gave, and the test \<open>uid ? ... : ...\<close> takes it
  as absent: the reference is then the generated one, where the SDK has no document named
  by the empty string at all. And a nested path with a segment that is no identifier is
  not descended: the SDK refuses the empty segment.
\<close>

theorem empty_uid_counterexample:
  "constructed \<lparr>collectionName = ''users'', collection = CollectionRef [''users''], uid = Some [],
      nestedPaths = []\<rparr>
   \<and> getNestedCollectionReference memory_firestore
       \<lparr>collectionName = ''users'', collection = CollectionRef [''users''], uid = Some [],
        nestedPaths = []\<rparr> (Some []) []
     = (Returns (DocumentRef [''users'', ''a'']), [])
   \<and> getNestedCollectionReference memory_firestore
       \<lparr>collectionName = ''users'', collection = CollectionRef [''users''], uid = Some [],
        nestedPaths = []\<rparr> (Some []) []
     \<noteq> (Returns (DocumentRef [''users'', []]), [])
   \<and> threw (getNestedCollectionReference memory_firestore
       \<lparr>collectionName = ''users'', collection = CollectionRef [''users''], uid = Some ''order1'',
        nestedPaths = ['''', ''orders'']\<rparr> (Some ''order1'') [])"
  by (simp add: constructed_def new_Firestore_def sdk_collection_def validateResourcePath_def
      resource_segments_def getNestedCollectionReference_def nested_loop.simps
      memory_firestore_def fresh_id_def)

text \<open>
  Claim C4. With a \<open>nestedPaths\<close> of odd length the method returns no reference at
  all, whatever the uid: the loop takes the last segment as a document id and ends on a
  \<open>DocumentReference\<close>, and the last line calls \<open>doc\<close> on it, which only a
  \<open>CollectionReference\<close> has. For segments that are identifiers the loop does end on
  the document under the segments of the path, and the exception is the
  \<open>TypeError\<close> of that call.
\<close>

theorem odd_nested_path_throws:
  assumes "constructed self" and "odd (length (nestedPaths self))"
  shows "threw (getNestedCollectionReference sdk self u s)
    \<and> (list_all valid_id (nestedPaths self) \<longrightarrow>
         nested_loop (nestedPaths self) 0 (collection self)
           = Returns (DocumentRef (segments (collection self) @ nestedPaths self))
         \<and> getNestedCollectionReference sdk self u s
           = (Throws (TypeError ''collectionRef.doc is not a function''), s))"
proof -
  from constructed_collection [OF assms(1)] obtain base
    where base: "collection self = CollectionRef base" "odd (length base)" by blast
  have "threw (getNestedCollectionReference sdk self u s)"
    using base(1) assms(2) by (rule getNestedCollectionReference_odd)
  moreover have "nested_loop (nestedPaths self) 0 (collection self)
           = Returns (DocumentRef (segments (collection self) @ nestedPaths self))
         \<and> getNestedCollectionReference sdk self u s
           = (Throws (TypeError ''collectionRef.doc is not a function''), s)"
    if v: "list_all valid_id (nestedPaths self)"
  proof -
    have loop: "nested_loop (nestedPaths self) 0 (collection self)
        = Returns (DocumentRef (base @ nestedPaths self))"
      using nested_loop_whole [OF v base(2)] assms(2) base(1) by simp
    then show ?thesis
      by (cases u) (simp_all add: getNestedCollectionReference_def base(1) of_outcome_def)
  qed
  ultimately show ?thesis by blast
qed

theorem odd_nested_path_throws_witness:
  "getNestedCollectionReference memory_firestore
     \<lparr>collectionName = ''users'', collection = CollectionRef [''users''], uid = Some ''order1'',
      nestedPaths = [''userA'', ''orders'', ''o1'']\<rparr> (Some ''order1'') []
   = (Throws (TypeError ''collectionRef.doc is not a function''), [])
   \<and> nested_loop [''userA'', ''orders'', ''o1''] 0 (CollectionRef [''users''])
   = Returns (DocumentRef [''users'', ''userA'', ''orders'', ''o1''])"
  using odd_nested_path_throws [of
      "\<lparr>collectionName = ''users'', collection = CollectionRef [''users''], uid = Some ''order1'',
        nestedPaths = [''userA'', ''orders'', ''o1'']\<rparr>"  memory_firestore "Some ''order1''" "[]"]
  by (simp add: constructed_def new_Firestore_def sdk_collection_def validateResourcePath_def
      resource_segments_def valid_id_def)

section \<open>RealTime: undefined values are rejected before any write\<close>

text \<open>
  Claim C9. For every data object in which some top-level value is \<open>undefined\<close>,
  \<open>RealTime.create\<close> returns \<open>[false, "Data contains undefined values"]\<close> and,
  whatever the database behind the SDK is, leaves its state as it was: the check returns
  before \<open>push\<close> and \<open>set\<close> are called.
\<close>

theorem create_rejects_undefined_values:
  assumes "JUndefined \<in> snd ` set props"
  shows "RealTime_create sdk self (JObj props) s =
           (Returns (JArr [JBool False, JStr ''Data contains undefined values'']), s)"
proof -
  have "Object_values (JObj props) = Returns (map snd props)" by simp
  moreover have "JUndefined \<in> set (map snd props)" using assms by simp
  ultimately show ?thesis
    by (simp add: RealTime_create_def try_catch_def returns_def del: Object_values.simps set_map)
qed

theorem create_rejects_undefined_values_witness:
  "JUndefined \<in> snd ` set [(''name'', JStr ''John''), (''age'', JUndefined)] \<and>
   RealTime_create memory_database \<lparr>itemsRef = [''items'']\<rparr>
     (JObj [(''name'', JStr ''John''), (''age'', JUndefined)])
     \<lparr>nodes = [([''items'', ''-N0''], JNum 1)], pushed = 1\<rparr> =
   (Returns (JArr [JBool False, JStr ''Data contains undefined values'']),
    \<lparr>nodes = [([''items'', ''-N0''], JNum 1)], pushed = 1\<rparr>)"
  using create_rejects_undefined_values
    [of "[(''name'', JStr ''John''), (''age'', JUndefined)]" memory_database
        "\<lparr>itemsRef = [''items'']\<rparr>" "\<lparr>nodes = [([''items'', ''-N0''], JNum 1)], pushed = 1\<rparr>"]
  by simp

section \<open>The result of each method, call by call\<close>


lemma RealTime_create_push_fails:
  assumes "Object_values data = Returns vs" and "JUndefined \<notin> set vs"
    and "db_push sdk (itemsRef self) s = (Throws e, s')"
    and "get_property e ''message'' = Returns msg"
  shows "RealTime_create sdk self data s = (Returns (JArr [JBool False, msg]), s')"
  using assms by (simp add: RealTime_create_def caught_Throws await_Throws)

lemma RealTime_create_set_fails:
  assumes "Object_values data = Returns vs" and "JUndefined \<notin> set vs"
    and "db_push sdk (itemsRef self) s = (Returns r, s1)"
    and "db_set sdk r data s1 = (Throws e, s')"
    and "get_property e ''message'' = Returns msg"
  shows "RealTime_create sdk self data s = (Returns (JArr [JBool False, msg]), s')"
  using assms by (simp add: RealTime_create_def caught_Throws await_Throws await_Returns)


lemma RealTime_read_get_fails:
  "db_get sdk (itemsRef self) s = (Throws e, s') \<Longrightarrow> get_property e ''message'' = Returns msg \<Longrightarrow>
   RealTime_read sdk self s = (Returns (JArr [JBool False, msg]), s')"
  by (simp add: RealTime_read_def caught_Throws await_Throws)


lemma RealTime_update_child_fails:
  "db_child sdk (itemsRef self) ident s = (Throws e, s') \<Longrightarrow> get_property e ''message'' = Returns msg \<Longrightarrow>
   RealTime_update sdk self ident newData s = (Returns (JArr [JBool False, msg]), s')"
  by (simp add: RealTime_update_def caught_Throws await_Throws)

lemma RealTime_update_set_fails:
  "db_child sdk (itemsRef self) ident s = (Returns r, s1) \<Longrightarrow>
   db_set sdk r newData s1 = (Throws e, s') \<Longrightarrow> get_property e ''message'' = Returns msg \<Longrightarrow>
   RealTime_update sdk self ident newData s = (Returns (JArr [JBool False, msg]), s')"
  by (simp add: RealTime_update_def caught_Throws await_Throws await_Returns)


lemma RealTime_delete_child_fails:
  "db_child sdk (itemsRef self) ident s = (Throws e, s') \<Longrightarrow> get_property e ''message'' = Returns msg \<Longrightarrow>
   RealTime_delete sdk self ident s = (Returns (JArr [JBool False, msg]), s')"
  by (simp add: RealTime_delete_def caught_Throws await_Throws)

lemma RealTime_delete_remove_fails:
  "db_child sdk (itemsRef self) ident s = (Returns r, s1) \<Longrightarrow>
   db_remove sdk r s1 = (Throws e, s') \<Longrightarrow> get_property e ''message'' = Returns msg \<Longrightarrow>
   RealTime_delete sdk self ident s = (Returns (JArr [JBool False, msg]), s')"
  by (simp add: RealTime_delete_def caught_Throws await_Throws await_Returns)


lemma createUser_fails:
  "auth_createUser auth userData t = (Throws e, t') \<Longrightarrow> get_property e ''message'' = Returns msg \<Longrightarrow>
   createUser auth userData t = (Returns (JArr [JBool False, msg]), t')"
  by (simp add: createUser_def caught_Throws await_Throws)


lemma loginUser_fails:
  "signInWithEmailAndPassword firebase email password t = (Throws e, t') \<Longrightarrow>
   get_property e ''message'' = Returns msg \<Longrightarrow>
   loginUser firebase email password t = (Returns (JArr [JBool False, msg]), t')"
  by (simp add: loginUser_def caught_Throws await_Throws)


lemma updateUser_fails:
  "auth_updateUser auth u updateUserData t = (Throws e, t') \<Longrightarrow>
   get_property e ''message'' = Returns msg \<Longrightarrow>
   updateUser auth u updateUserData t = (Returns (JArr [JBool False, msg]), t')"
  by (simp add: updateUser_def caught_Throws await_Throws)

lemma updateUser_toJSON_fails:
  "auth_updateUser auth u updateUserData t = (Returns userRecord, t1) \<Longrightarrow>
   auth_toJSON auth userRecord t1 = (Throws e, t') \<Longrightarrow>
   get_property e ''message'' = Returns msg \<Longrightarrow>
   updateUser auth u updateUserData t = (Returns (JArr [JBool False, msg]), t')"
  by (simp add: updateUser_def caught_Throws await_Throws await_Returns)


lemma getUser_fails:
  "auth_getUser auth u t = (Throws e, t') \<Longrightarrow> get_property e ''message'' = Returns msg \<Longrightarrow>
   getUser auth u t = (Returns (JArr [JBool False, msg]), t')"
  by (simp add: getUser_def caught_Throws await_Throws)


lemma deleteUser_fails:
  "auth_deleteUser auth u t = (Throws e, t') \<Longrightarrow> get_property e ''message'' = Returns msg \<Longrightarrow>
   deleteUser auth u t = (Returns (JArr [JBool False, msg]), t')"
  by (simp add: deleteUser_def caught_Throws await_Throws)

lemma createPhoneVerification_fails:
  "auth_createSessionCookie auth phoneNumber (JObj [(''expiresIn'', JNum 3600)]) t = (Throws e, t') \<Longrightarrow>
   get_property e ''message'' = Returns msg \<Longrightarrow>
   createPhoneVerification auth phoneNumber t = (Returns (JArr [JBool False, msg]), t')"
  by (simp add: createPhoneVerification_def caught_Throws await_Throws)

lemma verifyPhoneVerification_fails:
  "auth_verifySessionCookie auth verificationId otp t = (Throws e, t') \<Longrightarrow>
   get_property e ''message'' = Returns msg \<Longrightarrow>
   verifyPhoneVerification auth verificationId otp t = (Returns (JArr [JBool False, msg]), t')"
  by (simp add: verifyPhoneVerification_def caught_Throws await_Throws)

lemma resetPassword_fails:
  "auth_sendPasswordResetEmail auth email t = (Throws e, t') \<Longrightarrow>
   get_property e ''message'' = Returns msg \<Longrightarrow>
   resetPassword auth email t = (Returns (JArr [JBool False, msg]), t')"
  by (simp add: resetPassword_def caught_Throws await_Throws)

lemma getUsers_fails:
  "auth_listUsers auth t = (Throws e, t') \<Longrightarrow> get_property e ''message'' = Returns msg \<Longrightarrow>
   getUsers auth t = (Returns (JArr [JBool False, msg]), t')"
  by (simp add: getUsers_def caught_Throws await_Throws)

text \<open>
  \<open>Firestore\<close> has no \<open>try\<close> block in any method: what a method returns when
  every call returns, and the exception that reaches the caller when one throws.
\<close>

lemma Firestore_create_succeeds:
  "getNestedCollectionReference sdk self None w = (Returns docRef, w1) \<Longrightarrow>
   ref_set sdk docRef data w1 = (Returns (), w2) \<Longrightarrow>
   findId docRef data w2 = (Returns docID, w') \<Longrightarrow>
   Firestore_create sdk findId self data w = (Returns (JArr [JBool True, docID]), w')"
  by (simp add: Firestore_create_def await_Returns returns_def)

lemma Firestore_create_reference_fails:
  "getNestedCollectionReference sdk self None w = (Throws e, w') \<Longrightarrow>
   Firestore_create sdk findId self data w = (Throws e, w')"
  by (simp add: Firestore_create_def await_Throws)

lemma Firestore_create_set_fails:
  "getNestedCollectionReference sdk self None w = (Returns docRef, w1) \<Longrightarrow>
   ref_set sdk docRef data w1 = (Throws e, w') \<Longrightarrow>
   Firestore_create sdk findId self data w = (Throws e, w')"
  by (simp add: Firestore_create_def await_Throws await_Returns)

lemma Firestore_create_helper_fails:
  "getNestedCollectionReference sdk self None w = (Returns docRef, w1) \<Longrightarrow>
   ref_set sdk docRef data w1 = (Returns (), w2) \<Longrightarrow>
   findId docRef data w2 = (Throws e, w') \<Longrightarrow>
   Firestore_create sdk findId self data w = (Throws e, w')"
  by (simp add: Firestore_create_def await_Throws await_Returns)

lemma Firestore_read_succeeds:
  "getNestedCollectionReference sdk self (uid self) w = (Returns docRef, w1) \<Longrightarrow>
   ref_get sdk docRef w1 = (Returns (Some content), w') \<Longrightarrow>
   Firestore_read sdk self w = (Returns (JArr [JBool True, content]), w')"
  by (simp add: Firestore_read_def await_Returns returns_def)

lemma Firestore_read_not_found:
  "getNestedCollectionReference sdk self (uid self) w = (Returns docRef, w1) \<Longrightarrow>
   ref_get sdk docRef w1 = (Returns None, w') \<Longrightarrow>
   Firestore_read sdk self w = (Returns (JArr [JBool False, JStr ''Document does not exist'']), w')"
  by (simp add: Firestore_read_def await_Returns returns_def)

lemma Firestore_read_reference_fails:
  "getNestedCollectionReference sdk self (uid self) w = (Throws e, w') \<Longrightarrow>
   Firestore_read sdk self w = (Throws e, w')"
  by (simp add: Firestore_read_def await_Throws)

lemma Firestore_read_get_fails:
  "getNestedCollectionReference sdk self (uid self) w = (Returns docRef, w1) \<Longrightarrow>
   ref_get sdk docRef w1 = (Throws e, w') \<Longrightarrow>
   Firestore_read sdk self w = (Throws e, w')"
  by (simp add: Firestore_read_def await_Throws await_Returns)


lemma Firestore_update_reference_fails:
  "getNestedCollectionReference sdk self (uid self) w = (Throws e, w') \<Longrightarrow>
   Firestore_update sdk self data w = (Throws e, w')"
  by (simp add: Firestore_update_def await_Throws)

lemma Firestore_update_fails:
  "getNestedCollectionReference sdk self (uid self) w = (Returns docRef, w1) \<Longrightarrow>
   ref_update sdk docRef data w1 = (Throws e, w') \<Longrightarrow>
   Firestore_update sdk self data w = (Throws e, w')"
  by (simp add: Firestore_update_def await_Throws await_Returns)

lemma Firestore_delete_succeeds:
  "getNestedCollectionReference sdk self (uid self) w = (Returns docRef, w1) \<Longrightarrow>
   ref_delete sdk docRef w1 = (Returns (), w') \<Longrightarrow>
   Firestore_delete sdk self w = (Returns (JArr [JBool True, JNaN]), w')"
  by (simp add: Firestore_delete_def await_Returns returns_def)

lemma Firestore_delete_reference_fails:
  "getNestedCollectionReference sdk self (uid self) w = (Throws e, w') \<Longrightarrow>
   Firestore_delete sdk self w = (Throws e, w')"
  by (simp add: Firestore_delete_def await_Throws)

lemma Firestore_delete_fails:
  "getNestedCollectionReference sdk self (uid self) w = (Returns docRef, w1) \<Longrightarrow>
   ref_delete sdk docRef w1 = (Throws e, w') \<Longrightarrow>
   Firestore_delete sdk self w = (Throws e, w')"
  by (simp add: Firestore_delete_def await_Throws await_Returns)

lemma enumerated_paths_reference_fails:
  "getNestedCollectionReference sdk self None w = (Throws e, w') \<Longrightarrow>
   enumerated_paths sdk self w = (Throws e, w')"
  by (simp add: enumerated_paths_def await_Throws)

lemma enumerated_paths_fails:
  "getNestedCollectionReference sdk self None w = (Returns docRef, w1) \<Longrightarrow>
   ref_listDocuments sdk docRef w1 = (Throws e, w') \<Longrightarrow>
   enumerated_paths sdk self w = (Throws e, w')"
  by (simp add: enumerated_paths_def await_Throws await_Returns)

lemma readPaths_reference_fails:
  "getNestedCollectionReference sdk self None w = (Throws e, w') \<Longrightarrow>
   readPaths sdk self w = (Throws e, w')"
  by (simp add: readPaths_def await_Throws enumerated_paths_reference_fails)

lemma readPaths_fails:
  "getNestedCollectionReference sdk self None w = (Returns docRef, w1) \<Longrightarrow>
   ref_listDocuments sdk docRef w1 = (Throws e, w') \<Longrightarrow>
   readPaths sdk self w = (Throws e, w')"
  by (simp add: readPaths_def await_Throws enumerated_paths_fails)

lemma readAll_reference_fails:
  "getNestedCollectionReference sdk self None w = (Throws e, w') \<Longrightarrow>
   readAll sdk self w = (Throws e, w')"
  by (simp add: readAll_def await_Throws enumerated_paths_reference_fails)

lemma readAll_fails:
  "getNestedCollectionReference sdk self None w = (Returns docRef, w1) \<Longrightarrow>
   ref_listDocuments sdk docRef w1 = (Throws e, w') \<Longrightarrow>
   readAll sdk self w = (Throws e, w')"
  by (simp add: readAll_def await_Throws enumerated_paths_fails)

lemma readAll_loop_read_fails:
  "new_Firestore name path [] = Returns iterFirestore \<Longrightarrow>
   Firestore_read sdk iterFirestore w = (Throws e, w') \<Longrightarrow>
   readAll_loop sdk name (path # paths) allDocs w = (Throws e, w')"
  by (simp add: await_Throws)

text \<open>A method with a \<open>try\<close> block does not throw what its collaborator throws.\<close>

lemma await_ThrowsE:
  assumes "await m f s = (Throws e, s')"
  obtains "m s = (Throws e, s')" | x s1 where "m s = (Returns x, s1)" "f x s1 = (Throws e, s')"
  using assms by (cases "m s") (auto simp: await_def split: outcome.splits)

lemma of_outcome_Throws_iff [simp]: "of_outcome r s = (Throws e, s') \<longleftrightarrow> r = Throws e \<and> s' = s"
  by (cases r) (auto simp: of_outcome_def)

lemma returns_Throws_iff [simp]: "returns x s = (Throws e, s') \<longleftrightarrow> False"
  by (simp add: returns_def)

lemma database_rejectsD:
  assumes "rejects_with_values_database sdk"
  shows "db_push sdk r s = (Throws e, s') \<Longrightarrow> \<not> nullish e"
    and "db_child sdk r v s = (Throws e, s') \<Longrightarrow> \<not> nullish e"
    and "db_set sdk r v s = (Throws e, s') \<Longrightarrow> \<not> nullish e"
    and "db_get sdk r s = (Throws e, s') \<Longrightarrow> \<not> nullish e"
    and "db_remove sdk r s = (Throws e, s') \<Longrightarrow> \<not> nullish e"
  using assms unfolding rejects_with_values_database_def by metis+

lemma auth_rejectsD:
  assumes "rejects_with_values_auth auth"
  shows "auth_createUser auth a s = (Throws e, s') \<Longrightarrow> \<not> nullish e"
    and "auth_updateUser auth a b s = (Throws e, s') \<Longrightarrow> \<not> nullish e"
    and "auth_toJSON auth a s = (Throws e, s') \<Longrightarrow> \<not> nullish e"
    and "auth_getUser auth a s = (Throws e, s') \<Longrightarrow> \<not> nullish e"
    and "auth_deleteUser auth a s = (Throws e, s') \<Longrightarrow> \<not> nullish e"
    and "auth_createSessionCookie auth a b s = (Throws e, s') \<Longrightarrow> \<not> nullish e"
    and "auth_verifySessionCookie auth a b s = (Throws e, s') \<Longrightarrow> \<not> nullish e"
    and "auth_sendPasswordResetEmail auth a s = (Throws e, s') \<Longrightarrow> \<not> nullish e"
    and "auth_listUsers auth s = (Throws e, s') \<Longrightarrow> \<not> nullish e"
  using assms unfolding rejects_with_values_auth_def by metis+

lemma client_rejectsD:
  "rejects_with_values_client firebase \<Longrightarrow>
   signInWithEmailAndPassword firebase a b s = (Throws e, s') \<Longrightarrow> \<not> nullish e"
  unfolding rejects_with_values_client_def by metis

lemma RealTime_create_never_throws:
  assumes "rejects_with_values_database sdk"
  shows "\<not> threw (RealTime_create sdk self data s)"
  unfolding RealTime_create_def
  by (rule caught_never_throws)
     (auto elim!: await_ThrowsE dest: Object_values_not_nullish database_rejectsD [OF assms]
        split: if_splits)

lemma RealTime_read_never_throws:
  assumes "rejects_with_values_database sdk"
  shows "\<not> threw (RealTime_read sdk self s)"
  unfolding RealTime_read_def
  by (rule caught_never_throws) (auto elim!: await_ThrowsE dest: database_rejectsD [OF assms])

lemma RealTime_update_never_throws:
  assumes "rejects_with_values_database sdk"
  shows "\<not> threw (RealTime_update sdk self ident newData s)"
  unfolding RealTime_update_def
  by (rule caught_never_throws) (auto elim!: await_ThrowsE dest: database_rejectsD [OF assms])

lemma RealTime_delete_never_throws:
  assumes "rejects_with_values_database sdk"
  shows "\<not> threw (RealTime_delete sdk self ident s)"
  unfolding RealTime_delete_def
  by (rule caught_never_throws) (auto elim!: await_ThrowsE dest: database_rejectsD [OF assms])

lemma createUser_never_throws:
  assumes "rejects_with_values_auth auth"
  shows "\<not> threw (createUser auth userData t)"
  unfolding createUser_def
  by (rule caught_never_throws)
     (auto elim!: await_ThrowsE dest: auth_rejectsD [OF assms] outcome_not_nullish)

lemma loginUser_never_throws:
  assumes "rejects_with_values_client firebase"
  shows "\<not> threw (loginUser firebase email password t)"
  unfolding loginUser_def
  by (rule caught_never_throws)
     (auto elim!: await_ThrowsE dest: client_rejectsD [OF assms] outcome_not_nullish)

lemma updateUser_never_throws:
  assumes "rejects_with_values_auth auth"
  shows "\<not> threw (updateUser auth u updateUserData t)"
  unfolding updateUser_def
  by (rule caught_never_throws) (auto elim!: await_ThrowsE dest: auth_rejectsD [OF assms])

lemma getUser_never_throws:
  assumes "rejects_with_values_auth auth"
  shows "\<not> threw (getUser auth u t)"
  unfolding getUser_def
  by (rule caught_never_throws) (auto elim!: await_ThrowsE dest: auth_rejectsD [OF assms])

lemma deleteUser_never_throws:
  assumes "rejects_with_values_auth auth"
  shows "\<not> threw (deleteUser auth u t)"
  unfolding deleteUser_def
  by (rule caught_never_throws) (auto elim!: await_ThrowsE dest: auth_rejectsD [OF assms])

lemma createPhoneVerification_never_throws:
  assumes "rejects_with_values_auth auth"
  shows "\<not> threw (createPhoneVerification auth phoneNumber t)"
  unfolding createPhoneVerification_def
  by (rule caught_never_throws) (auto elim!: await_ThrowsE dest: auth_rejectsD [OF assms])

lemma verifyPhoneVerification_never_throws:
  assumes "rejects_with_values_auth auth"
  shows "\<not> threw (verifyPhoneVerification auth verificationId otp t)"
  unfolding verifyPhoneVerification_def
  by (rule caught_never_throws) (auto elim!: await_ThrowsE dest: auth_rejectsD [OF assms])

lemma resetPassword_never_throws:
  assumes "rejects_with_values_auth auth"
  shows "\<not> threw (resetPassword auth email t)"
  unfolding resetPassword_def
  by (rule caught_never_throws) (auto elim!: await_ThrowsE dest: auth_rejectsD [OF assms])

lemma getUsers_never_throws:
  assumes "rejects_with_values_auth auth"
  shows "\<not> threw (getUsers auth t)"
  unfolding getUsers_def
  by (rule caught_never_throws)
     (auto elim!: await_ThrowsE dest: auth_rejectsD [OF assms] outcome_not_nullish array_map_not_nullish)

section \<open>The document store in memory\<close>

lemma map_of_filter_other: "map_of (filter (\<lambda>(path, content). path \<noteq> p) docs) p = None"
  by (induction docs) auto


lemma set_put_document: "(p, data) \<in> set (put_document p data docs)"
  by (induction docs) auto

lemma fst_put_document:
  "map fst (put_document p data docs) = (if p \<in> fst ` set docs then map fst docs else map fst docs @ [p])"
  by (induction docs) force+

lemma put_document_valid:
  "list_all (\<lambda>(path, content). valid_path path) docs \<Longrightarrow> valid_path p \<Longrightarrow>
   list_all (\<lambda>(path, content). valid_path path) (put_document p data docs)"
  by (induction docs) auto

lemma well_formed_put_document:
  assumes "well_formed docs" and "valid_path p"
  shows "well_formed (put_document p data docs)"
  using assms by (auto simp: well_formed_def fst_put_document put_document_valid)

text \<open>The generated id is an identifier, longer than the id of any stored document.\<close>

lemma valid_id_fresh_id [simp]: "valid_id (fresh_id docs)"
  by (simp add: valid_id_def fresh_id_def)

lemma fresh_id_longer:
  "(path, content) \<in> set docs \<Longrightarrow> path \<noteq> [] \<Longrightarrow> length (last path) < length (fresh_id docs)"
  by (induction docs) (auto simp: fresh_id_def less_Suc_eq_le max_def)

lemma fresh_path_not_stored: "parent @ [fresh_id docs] \<notin> fst ` set docs"
proof
  assume "parent @ [fresh_id docs] \<in> fst ` set docs"
  then obtain content where "(parent @ [fresh_id docs], content) \<in> set docs" by auto
  from fresh_id_longer [OF this] show False by simp
qed

lemma stored_fresh_path [simp]: "stored docs (parent @ [fresh_id docs]) = None"
  using fresh_path_not_stored [of parent docs] by (simp add: stored_def map_of_eq_None_iff)

lemma well_formed_stored:
  assumes "well_formed docs" and "(path, content) \<in> set docs"
  shows "stored docs path = Some content" and "valid_path path"
  using assms by (auto simp: well_formed_def stored_def list_all_iff)

lemma listed_of_stored:
  assumes "(i, content) \<in> set (listed docs r)"
  shows "(parent_path r @ [i], content) \<in> set docs"
proof -
  from assms obtain path where
    mem: "(path, content) \<in> set docs" and ne: "path \<noteq> []"
    and parent: "butlast path = parent_path r" and i: "i = last path"
    by (auto simp: listed_def documents_in_def)
  from ne have "butlast path @ [last path] = path" by simp
  with parent i mem show ?thesis by simp
qed

lemma listed_after_put:
  "(i, content) \<in> set (listed (put_document (parent @ [i]) content docs) (DocumentRef (parent @ [i])))"
proof -
  have "(parent @ [i], content) \<in> set (put_document (parent @ [i]) content docs)"
    by (rule set_put_document)
  then have "(parent @ [i], content)
      \<in> set (documents_in (put_document (parent @ [i]) content docs) parent)"
    by (simp add: documents_in_def)
  then have "(\<lambda>(path, content). (last path, content)) (parent @ [i], content)
      \<in> set (listed (put_document (parent @ [i]) content docs) (DocumentRef (parent @ [i])))"
    unfolding listed_def set_map by (intro imageI) simp
  then show ?thesis by simp
qed

lemma memory_firestore_simps [simp]:
  "autoId memory_firestore docs = (fresh_id docs, docs)"
  "doc_set memory_firestore r data docs = (Returns (), put_document (segments r) data docs)"
  "doc_get memory_firestore r docs = (Returns (stored docs (segments r)), docs)"
  "doc_delete memory_firestore r docs = (Returns (), filter (\<lambda>(path, content). path \<noteq> segments r) docs)"
  "collection_docs memory_firestore r docs = (Returns (listed docs r), docs)"
  by (simp_all add: memory_firestore_def)

text \<open>What the helper's search gives on a list in which the content occurs.\<close>

lemma first_match_found:
  assumes "content \<in> snd ` set docs"
  shows "\<exists>i before after. first_match docs content = JStr i
           \<and> docs = before @ (i, content) # after \<and> content \<notin> snd ` set before"
  using assms
proof (induction docs)
  case Nil
  then show ?case by simp
next
  case (Cons d docs)
  obtain j c where d: "d = (j, c)" by (cases d)
  show ?case
  proof (cases "c = content")
    case True
    then have "first_match (d # docs) content = JStr j
        \<and> d # docs = [] @ (j, content) # docs \<and> content \<notin> snd ` set []"
      by (simp add: first_match_def d)
    then show ?thesis by blast
  next
    case False
    with Cons.prems d have "content \<in> snd ` set docs" by auto
    from Cons.IH [OF this] obtain i before after where
      ih: "first_match docs content = JStr i" "docs = before @ (i, content) # after"
          "content \<notin> snd ` set before"
      by blast
    from False ih have "first_match (d # docs) content = JStr i
        \<and> d # docs = (d # before) @ (i, content) # after \<and> content \<notin> snd ` set (d # before)"
      by (simp add: first_match_def d)
    then show ?thesis by blast
  qed
qed

lemma getDocumentIdByContent_found:
  assumes "collection_docs sdk docRef s = (Returns docs, s')"
    and "content \<in> snd ` set docs"
  shows "\<exists>i. getDocumentIdByContent sdk docRef content s = (Returns (JStr i), s')
           \<and> (i, content) \<in> set docs"
proof -
  from first_match_found [OF assms(2)] obtain i before after where
    found: "first_match docs content = JStr i" "docs = before @ (i, content) # after"
    by blast
  have "getDocumentIdByContent sdk docRef content s = (Returns (JStr i), s')"
    using assms(1) found(1) by (simp add: getDocumentIdByContent_def await_Returns returns_def)
  moreover have "(i, content) \<in> set docs" using found(2) by simp
  ultimately show ?thesis by blast
qed

text \<open>The helper as modelled from the spec meets what \<open>create\<close> needs of it.\<close>

lemma getDocumentIdByContent_finds_equal_content:
  "finds_equal_content (getDocumentIdByContent memory_firestore)"
  unfolding finds_equal_content_def
proof (intro allI impI)
  fix docRef content docs
  assume mem: "content \<in> snd ` set (listed docs docRef)"
  have enum: "collection_docs memory_firestore docRef docs = (Returns (listed docs docRef), docs)"
    by simp
  show "\<exists>i. getDocumentIdByContent memory_firestore docRef content docs = (Returns (JStr i), docs)
      \<and> (i, content) \<in> set (listed docs docRef)"
    by (rule getDocumentIdByContent_found [OF enum mem])
qed

lemma finds_equal_contentD:
  assumes "finds_equal_content findId" and "content \<in> snd ` set (listed docs docRef)"
  shows "\<exists>i. findId docRef content docs = (Returns (JStr i), docs)
           \<and> (i, content) \<in> set (listed docs docRef)"
  using assms by (simp add: finds_equal_content_def)

section \<open>Finding the id of the document just written\<close>

text \<open>
  Claim C5. When the record just written is among the documents the collection
  enumerates, \<open>getDocumentIdByContent\<close> returns the identifier of a document whose
  stored content equals the record; and it is the first such document of the enumeration:
  no document before it holds that content. Equality is that of the values, on every
  field.
\<close>

theorem getDocumentIdByContent_first_match:
  assumes "collection_docs sdk docRef s = (Returns docs, s')"
    and "content \<in> snd ` set docs"
  shows "\<exists>i before after.
           getDocumentIdByContent sdk docRef content s = (Returns (JStr i), s')
           \<and> docs = before @ (i, content) # after
           \<and> content \<notin> snd ` set before"
proof -
  from first_match_found [OF assms(2)] obtain i before after where
    found: "first_match docs content = JStr i" "docs = before @ (i, content) # after"
           "content \<notin> snd ` set before"
    by blast
  have "getDocumentIdByContent sdk docRef content s = (Returns (JStr i), s')"
    using assms(1) found(1) by (simp add: getDocumentIdByContent_def await_Returns returns_def)
  with found show ?thesis by blast
qed

text \<open>
  On the store in memory: the collection \<open>users\<close> holds a document \<open>a\<close>; a second
  document with the same content is written under a generated id (\<open>aa\<close>); the id found
  for it is that of the first, not of the document just created.
\<close>

theorem getDocumentIdByContent_first_match_witness:
  "doc_set memory_firestore (DocumentRef [''users'', ''aa'']) (JObj [(''name'', JStr ''John'')])
     [([''users'', ''a''], JObj [(''name'', JStr ''John'')])]
   = (Returns (),
      [([''users'', ''a''], JObj [(''name'', JStr ''John'')]),
       ([''users'', ''aa''], JObj [(''name'', JStr ''John'')])])
   \<and> (\<exists>before after.
         getDocumentIdByContent memory_firestore (DocumentRef [''users'', ''aa''])
           (JObj [(''name'', JStr ''John'')])
           [([''users'', ''a''], JObj [(''name'', JStr ''John'')]),
            ([''users'', ''aa''], JObj [(''name'', JStr ''John'')])]
         = (Returns (JStr ''a''),
            [([''users'', ''a''], JObj [(''name'', JStr ''John'')]),
             ([''users'', ''aa''], JObj [(''name'', JStr ''John'')])])
         \<and> [(''a'', JObj [(''name'', JStr ''John'')]), (''aa'', JObj [(''name'', JStr ''John'')])]
             = before @ (''a'', JObj [(''name'', JStr ''John'')]) # after
         \<and> JObj [(''name'', JStr ''John'')] \<notin> snd ` set before)"
proof -
  let ?john = "JObj [(''name'', JStr ''John'')]"
  let ?docs = "[([''users'', ''a''], ?john), ([''users'', ''aa''], ?john)]"
  let ?ref = "DocumentRef [''users'', ''aa'']"
  have written: "doc_set memory_firestore ?ref ?john [([''users'', ''a''], ?john)]
      = (Returns (), ?docs)"
    by simp
  have enum: "collection_docs memory_firestore ?ref ?docs
      = (Returns [(''a'', ?john), (''aa'', ?john)], ?docs)"
    by (simp add: listed_def documents_in_def)
  have "?john \<in> snd ` set [(''a'', ?john), (''aa'', ?john)]" by simp
  from getDocumentIdByContent_first_match [OF enum this]
  obtain i before after where
    r: "getDocumentIdByContent memory_firestore ?ref ?john ?docs = (Returns (JStr i), ?docs)"
       "[(''a'', ?john), (''aa'', ?john)] = before @ (i, ?john) # after"
       "?john \<notin> snd ` set before"
    by blast
  have "before = []"
  proof (cases before)
    case Nil
    then show ?thesis .
  next
    case (Cons b bs)
    with r(2) have "b = (''a'', ?john)" by simp
    with Cons r(3) show ?thesis by simp
  qed
  with r(2) have "i = ''a''" by simp
  with r written show ?thesis by blast
qed

section \<open>Round trips on the store in memory\<close>

text \<open>
  Claim C6, for an instance the constructor returned and on which \<open>create\<close> resolves
  its reference. On a well-formed store, and with a helper that returns an id whose stored
  record equals the record just written, \<open>create(record)\<close> returns \<open>[true, id]\<close>,
  and \<open>read()\<close> on an instance that addresses that id (same collection and nested
  path) then returns \<open>[true, record]\<close>: the record read is the one written.
\<close>

theorem create_then_read_round_trip:
  assumes "well_formed docs" and "finds_equal_content findId"
    and "constructed self"
    and "getNestedCollectionReference memory_firestore self None docs = (Returns ref, docs1)"
  shows "\<exists>i docs'.
           Firestore_create memory_firestore findId self content docs
             = (Returns (JArr [JBool True, JStr i]), docs')
           \<and> Firestore_read memory_firestore (self\<lparr>uid := Some i\<rparr>) docs'
             = (Returns (JArr [JBool True, content]), docs')"
proof -
  from constructed_collection [OF assms(3)] obtain base
    where base: "collection self = CollectionRef base" "odd (length base)" "list_all valid_id base"
    by blast
  obtain r where loop: "nested_loop (nestedPaths self) 0 (collection self) = Returns r"
    using assms(4)
    by (cases "nested_loop (nestedPaths self) 0 (collection self)")
       (auto simp: getNestedCollectionReference_def)
  with assms(4) have auto_doc: "sdk_auto_doc memory_firestore r docs = (Returns ref, docs1)"
    by (simp add: getNestedCollectionReference_def)
  then obtain parent where r: "r = CollectionRef parent" by (cases r) auto
  from nested_loop_collection [of "nestedPaths self" 0 "collection self" parent] loop r base
  have parent: "odd (length parent)" "list_all valid_id parent" by auto
  define docRef where "docRef = DocumentRef (parent @ [fresh_id docs])"
  define docs' where "docs' = put_document (parent @ [fresh_id docs]) content docs"
  have reference: "getNestedCollectionReference memory_firestore self None docs = (Returns docRef, docs)"
    using loop r by (simp add: getNestedCollectionReference_def docRef_def)
  have written: "ref_set memory_firestore docRef content docs = (Returns (), docs')"
    by (simp add: docRef_def docs'_def)
  have "valid_path (parent @ [fresh_id docs])"
    using parent by (simp add: valid_path_def)
  then have wf: "well_formed docs'"
    unfolding docs'_def using assms(1) by (simp add: well_formed_put_document)
  have "(fresh_id docs, content) \<in> set (listed docs' docRef)"
    unfolding docs'_def docRef_def by (rule listed_after_put)
  then have "content \<in> snd ` set (listed docs' docRef)" by force
  from finds_equal_contentD [OF assms(2) this] obtain i where
    found: "findId docRef content docs' = (Returns (JStr i), docs')"
           "(i, content) \<in> set (listed docs' docRef)"
    by blast
  from listed_of_stored [OF found(2)] have stored_i: "(parent @ [i], content) \<in> set docs'"
    by (simp add: docRef_def)
  from well_formed_stored [OF wf stored_i] have st: "stored docs' (parent @ [i]) = Some content"
    and vi: "valid_id i"
    by (auto simp: valid_path_def)
  have created: "Firestore_create memory_firestore findId self content docs
      = (Returns (JArr [JBool True, JStr i]), docs')"
    using reference written found(1) by (rule Firestore_create_succeeds)
  have "getNestedCollectionReference memory_firestore (self\<lparr>uid := Some i\<rparr>)
          (uid (self\<lparr>uid := Some i\<rparr>)) docs'
      = (Returns (DocumentRef (parent @ [i])), docs')"
    using loop r vi sdk_doc_id [OF vi parent(1)]
    by (simp add: getNestedCollectionReference_def valid_id_def of_outcome_def del: sdk_doc.simps)
  moreover have "ref_get memory_firestore (DocumentRef (parent @ [i])) docs' = (Returns (Some content), docs')"
    using st by simp
  ultimately have "Firestore_read memory_firestore (self\<lparr>uid := Some i\<rparr>) docs'
      = (Returns (JArr [JBool True, content]), docs')"
    by (rule Firestore_read_succeeds)
  with created show ?thesis by blast
qed

text \<open>
  With the helper as modelled from the spec, on a store that holds one document.
\<close>

theorem create_then_read_round_trip_witness:
  "well_formed [([''users'', ''a''], JObj [(''name'', JStr ''John'')])]
   \<and> (\<exists>i docs'.
         Firestore_create memory_firestore (getDocumentIdByContent memory_firestore)
           \<lparr>collectionName = ''users'', collection = CollectionRef [''users''], uid = None,
            nestedPaths = []\<rparr>
           (JObj [(''name'', JStr ''Mary'')])
           [([''users'', ''a''], JObj [(''name'', JStr ''John'')])]
         = (Returns (JArr [JBool True, JStr i]), docs')
         \<and> Firestore_read memory_firestore
             (\<lparr>collectionName = ''users'', collection = CollectionRef [''users''], uid = None,
               nestedPaths = []\<rparr>\<lparr>uid := Some i\<rparr>) docs'
           = (Returns (JArr [JBool True, JObj [(''name'', JStr ''Mary'')]]), docs'))"
proof -
  have wf: "well_formed [([''users'', ''a''], JObj [(''name'', JStr ''John'')])]"
    by (simp add: well_formed_def valid_path_def valid_id_def)
  have c: "constructed \<lparr>collectionName = ''users'', collection = CollectionRef [''users''],
      uid = None, nestedPaths = []\<rparr>"
    by (simp add: constructed_def new_Firestore_def sdk_collection_def validateResourcePath_def
        resource_segments_def)
  have r: "getNestedCollectionReference memory_firestore
      \<lparr>collectionName = ''users'', collection = CollectionRef [''users''], uid = None, nestedPaths = []\<rparr>
      None [([''users'', ''a''], JObj [(''name'', JStr ''John'')])]
    = (Returns (DocumentRef [''users'', ''aa'']), [([''users'', ''a''], JObj [(''name'', JStr ''John'')])])"
    by (simp add: getNestedCollectionReference_def nested_loop.simps fresh_id_def)
  from create_then_read_round_trip [OF wf getDocumentIdByContent_finds_equal_content c r] wf
  show ?thesis by simp
qed

text \<open>
  The SDK resolves the reference of an instance that addresses a stored document: the uid
  of the instance is the id of the document, in the collection its nested path leads to.
\<close>

lemma stored_document_resolves:
  assumes "well_formed docs" and "constructed self" and "uid self = Some i"
    and "(segments (collection self) @ nestedPaths self @ [i], content) \<in> set docs"
  shows "getNestedCollectionReference memory_firestore self (uid self) docs
    = (Returns (DocumentRef (segments (collection self) @ nestedPaths self @ [i])), docs)"
proof -
  from constructed_collection [OF assms(2)] obtain base
    where base: "collection self = CollectionRef base" "odd (length base)" by blast
  from well_formed_stored(2) [OF assms(1,4)]
  have "valid_path (base @ nestedPaths self @ [i])" by (simp add: base(1))
  then have "even (length (nestedPaths self))" "list_all valid_id (nestedPaths self)" "valid_id i"
    using base(2) by (auto simp: valid_path_def)
  from getNestedCollectionReference_even(3) [OF base this]
  show ?thesis by (simp add: assms(3) base(1))
qed

text \<open>
  Claim C7. For every instance whose reference the SDK resolves, and so for every instance
  that addresses a stored document, \<open>delete()\<close> returns \<open>[true, NaN]\<close> and leaves
  a store on which \<open>read()\<close> of the same instance returns
  \<open>[false, "Document does not exist"]\<close>.
\<close>

theorem delete_then_read_not_found:
  assumes "getNestedCollectionReference memory_firestore self (uid self) docs = (Returns docRef, docs1)"
  shows "\<exists>docs'.
     Firestore_delete memory_firestore self docs = (Returns (JArr [JBool True, JNaN]), docs')
     \<and> Firestore_read memory_firestore self docs'
       = (Returns (JArr [JBool False, JStr ''Document does not exist'']), docs')"
proof -
  from getNestedCollectionReference_returns_document [OF assms] obtain segs
    where docRef: "docRef = DocumentRef segs" by blast
  define docs' where "docs' = filter (\<lambda>(path, content). path \<noteq> segs) docs1"
  have deleted: "Firestore_delete memory_firestore self docs = (Returns (JArr [JBool True, JNaN]), docs')"
    using assms by (rule Firestore_delete_succeeds) (simp add: docRef docs'_def)
  obtain r where loop: "nested_loop (nestedPaths self) 0 (collection self) = Returns r"
    using assms
    by (cases "nested_loop (nestedPaths self) 0 (collection self)")
       (auto simp: getNestedCollectionReference_def)
  have "\<exists>segs'. getNestedCollectionReference memory_firestore self (uid self) docs'
        = (Returns (DocumentRef segs'), docs') \<and> stored docs' segs' = None"
  proof (cases "uid self = None \<or> uid self = Some []")
    case True
    with assms loop have "sdk_auto_doc memory_firestore r docs = (Returns docRef, docs1)"
      by (auto simp: getNestedCollectionReference_def)
    then obtain c where c: "r = CollectionRef c" by (cases r) auto
    with True loop have "getNestedCollectionReference memory_firestore self (uid self) docs'
        = (Returns (DocumentRef (c @ [fresh_id docs'])), docs')"
      by (auto simp: getNestedCollectionReference_def)
    then show ?thesis by simp
  next
    case False
    then obtain name where name: "uid self = Some name" "name \<noteq> []" by (cases "uid self") auto
    with assms loop have doc: "sdk_doc r name = Returns docRef" and "docs1 = docs"
      by (cases "sdk_doc r name"; simp add: getNestedCollectionReference_def of_outcome_def)+
    with name loop have "getNestedCollectionReference memory_firestore self (uid self) docs'
        = (Returns (DocumentRef segs), docs')"
      by (simp add: getNestedCollectionReference_def of_outcome_def docRef)
    moreover have "stored docs' segs = None"
      by (simp add: stored_def docs'_def map_of_filter_other)
    ultimately show ?thesis by blast
  qed
  then obtain segs' where
    "getNestedCollectionReference memory_firestore self (uid self) docs' = (Returns (DocumentRef segs'), docs')"
    "ref_get memory_firestore (DocumentRef segs') docs' = (Returns None, docs')"
    by auto
  then have "Firestore_read memory_firestore self docs'
      = (Returns (JArr [JBool False, JStr ''Document does not exist'']), docs')"
    by (rule Firestore_read_not_found)
  with deleted show ?thesis by blast
qed

text \<open>
  A stored document: before the deletion \<open>read()\<close> returns its content, after it the
  not-found outcome.
\<close>

theorem delete_then_read_not_found_witness:
  "Firestore_read memory_firestore
     \<lparr>collectionName = ''users'', collection = CollectionRef [''users''], uid = Some ''a'',
      nestedPaths = []\<rparr>
     [([''users'', ''a''], JObj [(''name'', JStr ''John'')])]
   = (Returns (JArr [JBool True, JObj [(''name'', JStr ''John'')]]),
      [([''users'', ''a''], JObj [(''name'', JStr ''John'')])])
   \<and> (\<exists>docs'.
        Firestore_delete memory_firestore
          \<lparr>collectionName = ''users'', collection = CollectionRef [''users''], uid = Some ''a'',
           nestedPaths = []\<rparr>
          [([''users'', ''a''], JObj [(''name'', JStr ''John'')])]
        = (Returns (JArr [JBool True, JNaN]), docs')
        \<and> Firestore_read memory_firestore
          \<lparr>collectionName = ''users'', collection = CollectionRef [''users''], uid = Some ''a'',
           nestedPaths = []\<rparr> docs'
          = (Returns (JArr [JBool False, JStr ''Document does not exist'']), docs'))"
proof -
  let ?self = "\<lparr>collectionName = ''users'', collection = CollectionRef [''users''], uid = Some ''a'',
      nestedPaths = []\<rparr>"
  let ?docs = "[([''users'', ''a''], JObj [(''name'', JStr ''John'')])]"
  have "well_formed ?docs"
    by (simp add: well_formed_def valid_path_def valid_id_def)
  moreover have "constructed ?self"
    by (simp add: constructed_def new_Firestore_def sdk_collection_def validateResourcePath_def
        resource_segments_def)
  ultimately have "getNestedCollectionReference memory_firestore ?self (uid ?self) ?docs
      = (Returns (DocumentRef (segments (collection ?self) @ nestedPaths ?self @ [''a''])), ?docs)"
    by (rule stored_document_resolves [where content = "JObj [(''name'', JStr ''John'')]"]) simp_all
  then have reference: "getNestedCollectionReference memory_firestore ?self (uid ?self) ?docs
      = (Returns (DocumentRef [''users'', ''a'']), ?docs)"
    by simp
  have "Firestore_read memory_firestore ?self ?docs
      = (Returns (JArr [JBool True, JObj [(''name'', JStr ''John'')]]), ?docs)"
    using reference by (rule Firestore_read_succeeds) (simp add: stored_def)
  with delete_then_read_not_found [OF reference]
  show ?thesis by blast
qed

section \<open>Where \<open>create\<close> writes\<close>


lemma getDocumentIdByContent_memory_state:
  "snd (getDocumentIdByContent memory_firestore docRef content docs) = docs"
  by (simp add: getDocumentIdByContent_def await_def returns_def)





section \<open>\<open>readPaths\<close> and \<open>readAll\<close>\<close>

text \<open>
  Claim C8. \<open>readPaths\<close> calls \<open>listDocuments\<close> on what
  \<open>getNestedCollectionReference()\<close> returns, and that is a \<open>DocumentReference\<close>,
  which has no such method. So \<open>readPaths\<close>, and \<open>readAll\<close>, which awaits it first,
  throw for every instance, every SDK and every state of the store: no mapping is
  returned. When the reference resolves, the exception is the \<open>TypeError\<close> of that
  call.
\<close>

theorem readAll_throws:
  "threw (readPaths sdk self s) \<and> threw (readAll sdk self s)
   \<and> (\<forall>docRef s'. getNestedCollectionReference sdk self None s = (Returns docRef, s') \<longrightarrow>
         readPaths sdk self s
           = (Throws (TypeError ''this.getNestedCollectionReference(...).listDocuments is not a function''), s')
       \<and> readAll sdk self s
           = (Throws (TypeError ''this.getNestedCollectionReference(...).listDocuments is not a function''), s'))"
proof -
  have resolved: "readPaths sdk self s
           = (Throws (TypeError ''this.getNestedCollectionReference(...).listDocuments is not a function''), s')
       \<and> readAll sdk self s
           = (Throws (TypeError ''this.getNestedCollectionReference(...).listDocuments is not a function''), s')"
    if r: "getNestedCollectionReference sdk self None s = (Returns docRef, s')" for docRef s'
  proof -
    from getNestedCollectionReference_returns_document [OF r] obtain segs
      where "docRef = DocumentRef segs" by blast
    then have "ref_listDocuments sdk docRef s'
        = (Throws (TypeError ''this.getNestedCollectionReference(...).listDocuments is not a function''), s')"
      by (simp add: throws_def)
    with r show ?thesis by (simp add: readPaths_fails readAll_fails)
  qed
  have "threw (readPaths sdk self s) \<and> threw (readAll sdk self s)"
  proof (cases "getNestedCollectionReference sdk self None s")
    case (Pair r s')
    show ?thesis
    proof (cases r)
      case (Returns docRef)
      with Pair resolved [of docRef s'] show ?thesis by simp
    next
      case (Throws e)
      with Pair show ?thesis
        by (simp add: readPaths_reference_fails readAll_reference_fails)
    qed
  qed
  with resolved show ?thesis by blast
qed

text \<open>
  The collection \<open>users\<close> with two documents, and an instance on it without nested
  path: \<open>readAll\<close> throws, where the claim has it return the two documents by id.
\<close>

theorem readAll_throws_witness:
  "readAll memory_firestore
     \<lparr>collectionName = ''users'', collection = CollectionRef [''users''], uid = None, nestedPaths = []\<rparr>
     [([''users'', ''a''], JObj [(''name'', JStr ''John'')]),
      ([''users'', ''b''], JObj [(''name'', JStr ''Mary'')])]
   = (Throws (TypeError ''this.getNestedCollectionReference(...).listDocuments is not a function''),
      [([''users'', ''a''], JObj [(''name'', JStr ''John'')]),
       ([''users'', ''b''], JObj [(''name'', JStr ''Mary'')])])"
  using readAll_throws [of memory_firestore
     "\<lparr>collectionName = ''users'', collection = CollectionRef [''users''], uid = None, nestedPaths = []\<rparr>"
     "[([''users'', ''a''], JObj [(''name'', JStr ''John'')]),
       ([''users'', ''b''], JObj [(''name'', JStr ''Mary'')])]"]
  by (simp add: getNestedCollectionReference_def nested_loop.simps)

section \<open>The remaining paths of the methods with a \<open>try\<close> block\<close>






text \<open>The collaborators the methods are run on reject no call with \<open>null\<close> or \<open>undefined\<close>.\<close>

lemma not_nullish_unavailable [simp]: "\<not> nullish unavailable"
  by (simp add: unavailable_def)

lemma not_nullish_permission_denied [simp]: "\<not> nullish permission_denied"
  by (simp add: permission_denied_def)

lemma memory_database_rejects: "rejects_with_values_database memory_database"
  by (auto simp: rejects_with_values_database_def memory_database_def split: js_value.splits)

lemma rejecting_database_rejects: "\<not> nullish e \<Longrightarrow> rejects_with_values_database (rejecting_database e)"
  by (auto simp: rejects_with_values_database_def rejecting_database_def throws_def)

lemma read_only_database_rejects: "rejects_with_values_database read_only_database"
  by (auto simp: rejects_with_values_database_def read_only_database_def throws_def returns_def
      split: js_value.splits)

lemma sample_auth_rejects: "rejects_with_values_auth sample_auth"
  by (simp add: rejects_with_values_auth_def sample_auth_def returns_def)

lemma opaque_auth_rejects: "rejects_with_values_auth opaque_auth"
  by (simp add: rejects_with_values_auth_def opaque_auth_def sample_auth_def returns_def throws_def)

lemma rejecting_auth_rejects: "\<not> nullish e \<Longrightarrow> rejects_with_values_auth (rejecting_auth e)"
  by (auto simp: rejects_with_values_auth_def rejecting_auth_def throws_def)

lemma sample_client_rejects: "rejects_with_values_client sample_client"
  by (simp add: rejects_with_values_client_def sample_client_def returns_def)

lemma rejecting_client_rejects: "\<not> nullish e \<Longrightarrow> rejects_with_values_client (rejecting_client e)"
  by (auto simp: rejects_with_values_client_def rejecting_client_def throws_def)

section \<open>The result convention, method by method\<close>



section \<open>Exceptions of the collaborator, method by method\<close>

text \<open>
  Claim C2, for collaborators that reject no call with \<open>null\<close> or \<open>undefined\<close>. The
  four methods of \<open>RealTime\<close> and \<open>createUser\<close>, \<open>loginUser\<close>,
  \<open>updateUser\<close>, \<open>getUser\<close>, \<open>deleteUser\<close>, \<open>createPhoneVerification\<close>,
  \<open>verifyPhoneVerification\<close>, \<open>resetPassword\<close> and \<open>getUsers\<close> of
  \<open>Authentication\<close> never throw, and an exception raised by any of the
  collaborator's calls is converted into the returned \<open>[false, error.message]\<close>. The
  methods of \<open>Firestore\<close> have no \<open>try\<close> block: an exception raised while the
  reference is resolved, by a call of the SDK, by the helper of \<open>create\<close> or by a child
  read of \<open>readAll\<close> is the exception of the method. \<open>verificationEmail\<close> has none
  either: its outcome is that of the service's call.
\<close>

theorem collaborator_exceptions:
  assumes "rejects_with_values_database db"
    and "rejects_with_values_auth auth"
    and "rejects_with_values_client firebase"
  shows "\<not> threw (RealTime_create db rt data s)
    \<and> \<not> threw (RealTime_read db rt s)
    \<and> \<not> threw (RealTime_update db rt ident newData s)
    \<and> \<not> threw (RealTime_delete db rt ident s)
    \<and> \<not> threw (createUser auth userData t)
    \<and> \<not> threw (loginUser firebase email password t)
    \<and> \<not> threw (updateUser auth u updateUserData t)
    \<and> \<not> threw (getUser auth u t)
    \<and> \<not> threw (deleteUser auth u t)
    \<and> \<not> threw (createPhoneVerification auth phoneNumber t)
    \<and> \<not> threw (verifyPhoneVerification auth verificationId otp t)
    \<and> \<not> threw (resetPassword auth email t)
    \<and> \<not> threw (getUsers auth t)
    \<and> (\<forall>vs e msg s'.
          Object_values data = Returns vs
          \<and> JUndefined \<notin> set vs
          \<and> db_push db (itemsRef rt) s = (Throws e, s')
          \<and> get_property e ''message'' = Returns msg
        \<longrightarrow> RealTime_create db rt data s = (Returns (JArr [JBool False, msg]), s'))
    \<and> (\<forall>vs r s1 e msg s'.
          Object_values data = Returns vs
          \<and> JUndefined \<notin> set vs
          \<and> db_push db (itemsRef rt) s = (Returns r, s1)
          \<and> db_set db r data s1 = (Throws e, s')
          \<and> get_property e ''message'' = Returns msg
        \<longrightarrow> RealTime_create db rt data s = (Returns (JArr [JBool False, msg]), s'))
    \<and> (\<forall>e msg s'.
          db_get db (itemsRef rt) s = (Throws e, s')
          \<and> get_property e ''message'' = Returns msg
        \<longrightarrow> RealTime_read db rt s = (Returns (JArr [JBool False, msg]), s'))
    \<and> (\<forall>e msg s'.
          db_child db (itemsRef rt) ident s = (Throws e, s')
          \<and> get_property e ''message'' = Returns msg
        \<longrightarrow> RealTime_update db rt ident newData s = (Returns (JArr [JBool False, msg]), s'))
    \<and> (\<forall>r s1 e msg s'.
          db_child db (itemsRef rt) ident s = (Returns r, s1)
          \<and> db_set db r newData s1 = (Throws e, s')
          \<and> get_property e ''message'' = Returns msg
        \<longrightarrow> RealTime_update db rt ident newData s = (Returns (JArr [JBool False, msg]), s'))
    \<and> (\<forall>e msg s'.
          db_child db (itemsRef rt) ident s = (Throws e, s')
          \<and> get_property e ''message'' = Returns msg
        \<longrightarrow> RealTime_delete db rt ident s = (Returns (JArr [JBool False, msg]), s'))
    \<and> (\<forall>r s1 e msg s'.
          db_child db (itemsRef rt) ident s = (Returns r, s1)
          \<and> db_remove db r s1 = (Throws e, s')
          \<and> get_property e ''message'' = Returns msg
        \<longrightarrow> RealTime_delete db rt ident s = (Returns (JArr [JBool False, msg]), s'))
    \<and> (\<forall>e msg t'.
          auth_createUser auth userData t = (Throws e, t')
          \<and> get_property e ''message'' = Returns msg
        \<longrightarrow> createUser auth userData t = (Returns (JArr [JBool False, msg]), t'))
    \<and> (\<forall>e msg t'.
          signInWithEmailAndPassword firebase email password t = (Throws e, t')
          \<and> get_property e ''message'' = Returns msg
        \<longrightarrow> loginUser firebase email password t = (Returns (JArr [JBool False, msg]), t'))
    \<and> (\<forall>e msg t'.
          auth_updateUser auth u updateUserData t = (Throws e, t')
          \<and> get_property e ''message'' = Returns msg
        \<longrightarrow> updateUser auth u updateUserData t = (Returns (JArr [JBool False, msg]), t'))
    \<and> (\<forall>userRecord t1 e msg t'.
          auth_updateUser auth u updateUserData t = (Returns userRecord, t1)
          \<and> auth_toJSON auth userRecord t1 = (Throws e, t')
          \<and> get_property e ''message'' = Returns msg
        \<longrightarrow> updateUser auth u updateUserData t = (Returns (JArr [JBool False, msg]), t'))
    \<and> (\<forall>e msg t'.
          auth_getUser auth u t = (Throws e, t')
          \<and> get_property e ''message'' = Returns msg
        \<longrightarrow> getUser auth u t = (Returns (JArr [JBool False, msg]), t'))
    \<and> (\<forall>e msg t'.
          auth_deleteUser auth u t = (Throws e, t')
          \<and> get_property e ''message'' = Returns msg
        \<longrightarrow> deleteUser auth u t = (Returns (JArr [JBool False, msg]), t'))
    \<and> (\<forall>e msg t'.
          auth_createSessionCookie auth phoneNumber (JObj [(''expiresIn'', JNum 3600)]) t = (Throws e, t')
          \<and> get_property e ''message'' = Returns msg
        \<longrightarrow> createPhoneVerification auth phoneNumber t = (Returns (JArr [JBool False, msg]), t'))
    \<and> (\<forall>e msg t'.
          auth_verifySessionCookie auth verificationId otp t = (Throws e, t')
          \<and> get_property e ''message'' = Returns msg
        \<longrightarrow> verifyPhoneVerification auth verificationId otp t = (Returns (JArr [JBool False, msg]), t'))
    \<and> (\<forall>e msg t'.
          auth_sendPasswordResetEmail auth email t = (Throws e, t')
          \<and> get_property e ''message'' = Returns msg
        \<longrightarrow> resetPassword auth email t = (Returns (JArr [JBool False, msg]), t'))
    \<and> (\<forall>e msg t'.
          auth_listUsers auth t = (Throws e, t')
          \<and> get_property e ''message'' = Returns msg
        \<longrightarrow> getUsers auth t = (Returns (JArr [JBool False, msg]), t'))
    \<and> (\<forall>e w'.
          getNestedCollectionReference fs self None w = (Throws e, w')
        \<longrightarrow> Firestore_create fs findId self content w = (Throws e, w'))
    \<and> (\<forall>docRef w1 e w'.
          getNestedCollectionReference fs self None w = (Returns docRef, w1)
          \<and> ref_set fs docRef content w1 = (Throws e, w')
        \<longrightarrow> Firestore_create fs findId self content w = (Throws e, w'))
    \<and> (\<forall>docRef w1 w2 e w'.
          getNestedCollectionReference fs self None w = (Returns docRef, w1)
          \<and> ref_set fs docRef content w1 = (Returns (), w2)
          \<and> findId docRef content w2 = (Throws e, w')
        \<longrightarrow> Firestore_create fs findId self content w = (Throws e, w'))
    \<and> (\<forall>e w'.
          getNestedCollectionReference fs self (uid self) w = (Throws e, w')
        \<longrightarrow> Firestore_read fs self w = (Throws e, w'))
    \<and> (\<forall>docRef w1 e w'.
          getNestedCollectionReference fs self (uid self) w = (Returns docRef, w1)
          \<and> ref_get fs docRef w1 = (Throws e, w')
        \<longrightarrow> Firestore_read fs self w = (Throws e, w'))
    \<and> (\<forall>e w'.
          getNestedCollectionReference fs self (uid self) w = (Throws e, w')
        \<longrightarrow> Firestore_update fs self content w = (Throws e, w'))
    \<and> (\<forall>docRef w1 e w'.
          getNestedCollectionReference fs self (uid self) w = (Returns docRef, w1)
          \<and> ref_update fs docRef content w1 = (Throws e, w')
        \<longrightarrow> Firestore_update fs self content w = (Throws e, w'))
    \<and> (\<forall>e w'.
          getNestedCollectionReference fs self (uid self) w = (Throws e, w')
        \<longrightarrow> Firestore_delete fs self w = (Throws e, w'))
    \<and> (\<forall>docRef w1 e w'.
          getNestedCollectionReference fs self (uid self) w = (Returns docRef, w1)
          \<and> ref_delete fs docRef w1 = (Throws e, w')
        \<longrightarrow> Firestore_delete fs self w = (Throws e, w'))
    \<and> (\<forall>e w'.
          getNestedCollectionReference fs self None w = (Throws e, w')
        \<longrightarrow> readPaths fs self w = (Throws e, w'))
    \<and> (\<forall>docRef w1 e w'.
          getNestedCollectionReference fs self None w = (Returns docRef, w1)
          \<and> ref_listDocuments fs docRef w1 = (Throws e, w')
        \<longrightarrow> readPaths fs self w = (Throws e, w'))
    \<and> (\<forall>e w'.
          getNestedCollectionReference fs self None w = (Throws e, w')
        \<longrightarrow> readAll fs self w = (Throws e, w'))
    \<and> (\<forall>docRef w1 e w'.
          getNestedCollectionReference fs self None w = (Returns docRef, w1)
          \<and> ref_listDocuments fs docRef w1 = (Throws e, w')
        \<longrightarrow> readAll fs self w = (Throws e, w'))
    \<and> (\<forall>iterFirestore e w'.
          new_Firestore name path [] = Returns iterFirestore
          \<and> Firestore_read fs iterFirestore w = (Throws e, w')
        \<longrightarrow> readAll_loop fs name (path # paths) allDocs w = (Throws e, w'))
    \<and> verificationEmail auth email t = auth_generateEmailVerificationLink auth email t
    \<and> (\<forall>e. \<not> nullish e \<longrightarrow> (\<exists>msg. get_property e ''message'' = Returns msg))"
proof -
  have nt_rc: "\<not> threw (RealTime_create db rt data s)"
    using assms(1) by (rule RealTime_create_never_throws)
  have nt_rr: "\<not> threw (RealTime_read db rt s)"
    using assms(1) by (rule RealTime_read_never_throws)
  have nt_ru: "\<not> threw (RealTime_update db rt ident newData s)"
    using assms(1) by (rule RealTime_update_never_throws)
  have nt_rd: "\<not> threw (RealTime_delete db rt ident s)"
    using assms(1) by (rule RealTime_delete_never_throws)
  have nt_cu: "\<not> threw (createUser auth userData t)"
    using assms(2) by (rule createUser_never_throws)
  have nt_lu: "\<not> threw (loginUser firebase email password t)"
    using assms(3) by (rule loginUser_never_throws)
  have nt_uu: "\<not> threw (updateUser auth u updateUserData t)"
    using assms(2) by (rule updateUser_never_throws)
  have nt_gu: "\<not> threw (getUser auth u t)"
    using assms(2) by (rule getUser_never_throws)
  have nt_du: "\<not> threw (deleteUser auth u t)"
    using assms(2) by (rule deleteUser_never_throws)
  have nt_cp: "\<not> threw (createPhoneVerification auth phoneNumber t)"
    using assms(2) by (rule createPhoneVerification_never_throws)
  have nt_vp: "\<not> threw (verifyPhoneVerification auth verificationId otp t)"
    using assms(2) by (rule verifyPhoneVerification_never_throws)
  have nt_rp: "\<not> threw (resetPassword auth email t)"
    using assms(2) by (rule resetPassword_never_throws)
  have nt_gus: "\<not> threw (getUsers auth t)"
    using assms(2) by (rule getUsers_never_throws)
  have rc_push: "\<forall>vs e msg s'.
          Object_values data = Returns vs
          \<and> JUndefined \<notin> set vs
          \<and> db_push db (itemsRef rt) s = (Throws e, s')
          \<and> get_property e ''message'' = Returns msg
        \<longrightarrow> RealTime_create db rt data s = (Returns (JArr [JBool False, msg]), s')"
    by (intro allI impI, elim conjE) (rule RealTime_create_push_fails; assumption)
  have rc_set: "\<forall>vs r s1 e msg s'.
          Object_values data = Returns vs
          \<and> JUndefined \<notin> set vs
          \<and> db_push db (itemsRef rt) s = (Returns r, s1)
          \<and> db_set db r data s1 = (Throws e, s')
          \<and> get_property e ''message'' = Returns msg
        \<longrightarrow> RealTime_create db rt data s = (Returns (JArr [JBool False, msg]), s')"
    by (intro allI impI, elim conjE) (rule RealTime_create_set_fails; assumption)
  have rr_get: "\<forall>e msg s'.
          db_get db (itemsRef rt) s = (Throws e, s')
          \<and> get_property e ''message'' = Returns msg
        \<longrightarrow> RealTime_read db rt s = (Returns (JArr [JBool False, msg]), s')"
    by (intro allI impI, elim conjE) (rule RealTime_read_get_fails; assumption)
  have ru_child: "\<forall>e msg s'.
          db_child db (itemsRef rt) ident s = (Throws e, s')
          \<and> get_property e ''message'' = Returns msg
        \<longrightarrow> RealTime_update db rt ident newData s = (Returns (JArr [JBool False, msg]), s')"
    by (intro allI impI, elim conjE) (rule RealTime_update_child_fails; assumption)
  have ru_set: "\<forall>r s1 e msg s'.
          db_child db (itemsRef rt) ident s = (Returns r, s1)
          \<and> db_set db r newData s1 = (Throws e, s')
          \<and> get_property e ''message'' = Returns msg
        \<longrightarrow> RealTime_update db rt ident newData s = (Returns (JArr [JBool False, msg]), s')"
    by (intro allI impI, elim conjE) (rule RealTime_update_set_fails; assumption)
  have rd_child: "\<forall>e msg s'.
          db_child db (itemsRef rt) ident s = (Throws e, s')
          \<and> get_property e ''message'' = Returns msg
        \<longrightarrow> RealTime_delete db rt ident s = (Returns (JArr [JBool False, msg]), s')"
    by (intro allI impI, elim conjE) (rule RealTime_delete_child_fails; assumption)
  have rd_remove: "\<forall>r s1 e msg s'.
          db_child db (itemsRef rt) ident s = (Returns r, s1)
          \<and> db_remove db r s1 = (Throws e, s')
          \<and> get_property e ''message'' = Returns msg
        \<longrightarrow> RealTime_delete db rt ident s = (Returns (JArr [JBool False, msg]), s')"
    by (intro allI impI, elim conjE) (rule RealTime_delete_remove_fails; assumption)
  have cu_fail: "\<forall>e msg t'.
          auth_createUser auth userData t = (Throws e, t')
          \<and> get_property e ''message'' = Returns msg
        \<longrightarrow> createUser auth userData t = (Returns (JArr [JBool False, msg]), t')"
    by (intro allI impI, elim conjE) (rule createUser_fails; assumption)
  have lu_fail: "\<forall>e msg t'.
          signInWithEmailAndPassword firebase email password t = (Throws e, t')
          \<and> get_property e ''message'' = Returns msg
        \<longrightarrow> loginUser firebase email password t = (Returns (JArr [JBool False, msg]), t')"
    by (intro allI impI, elim conjE) (rule loginUser_fails; assumption)
  have uu_fail: "\<forall>e msg t'.
          auth_updateUser auth u updateUserData t = (Throws e, t')
          \<and> get_property e ''message'' = Returns msg
        \<longrightarrow> updateUser auth u updateUserData t = (Returns (JArr [JBool False, msg]), t')"
    by (intro allI impI, elim conjE) (rule updateUser_fails; assumption)
  have uu_json: "\<forall>userRecord t1 e msg t'.
          auth_updateUser auth u updateUserData t = (Returns userRecord, t1)
          \<and> auth_toJSON auth userRecord t1 = (Throws e, t')
          \<and> get_property e ''message'' = Returns msg
        \<longrightarrow> updateUser auth u updateUserData t = (Returns (JArr [JBool False, msg]), t')"
    by (intro allI impI, elim conjE) (rule updateUser_toJSON_fails; assumption)
  have gu_fail: "\<forall>e msg t'.
          auth_getUser auth u t = (Throws e, t')
          \<and> get_property e ''message'' = Returns msg
        \<longrightarrow> getUser auth u t = (Returns (JArr [JBool False, msg]), t')"
    by (intro allI impI, elim conjE) (rule getUser_fails; assumption)
  have du_fail: "\<forall>e msg t'.
          auth_deleteUser auth u t = (Throws e, t')
          \<and> get_property e ''message'' = Returns msg
        \<longrightarrow> deleteUser auth u t = (Returns (JArr [JBool False, msg]), t')"
    by (intro allI impI, elim conjE) (rule deleteUser_fails; assumption)
  have cp_fail: "\<forall>e msg t'.
          auth_createSessionCookie auth phoneNumber (JObj [(''expiresIn'', JNum 3600)]) t = (Throws e, t')
          \<and> get_property e ''message'' = Returns msg
        \<longrightarrow> createPhoneVerification auth phoneNumber t = (Returns (JArr [JBool False, msg]), t')"
    by (intro allI impI, elim conjE) (rule createPhoneVerification_fails; assumption)
  have vp_fail: "\<forall>e msg t'.
          auth_verifySessionCookie auth verificationId otp t = (Throws e, t')
          \<and> get_property e ''message'' = Returns msg
        \<longrightarrow> verifyPhoneVerification auth verificationId otp t = (Returns (JArr [JBool False, msg]), t')"
    by (intro allI impI, elim conjE) (rule verifyPhoneVerification_fails; assumption)
  have rp_fail: "\<forall>e msg t'.
          auth_sendPasswordResetEmail auth email t = (Throws e, t')
          \<and> get_property e ''message'' = Returns msg
        \<longrightarrow> resetPassword auth email t = (Returns (JArr [JBool False, msg]), t')"
    by (intro allI impI, elim conjE) (rule resetPassword_fails; assumption)
  have gus_fail: "\<forall>e msg t'.
          auth_listUsers auth t = (Throws e, t')
          \<and> get_property e ''message'' = Returns msg
        \<longrightarrow> getUsers auth t = (Returns (JArr [JBool False, msg]), t')"
    by (intro allI impI, elim conjE) (rule getUsers_fails; assumption)
  have fc_ref: "\<forall>e w'.
          getNestedCollectionReference fs self None w = (Throws e, w')
        \<longrightarrow> Firestore_create fs findId self content w = (Throws e, w')"
    by (intro allI impI) (rule Firestore_create_reference_fails; assumption)
  have fc_set: "\<forall>docRef w1 e w'.
          getNestedCollectionReference fs self None w = (Returns docRef, w1)
          \<and> ref_set fs docRef content w1 = (Throws e, w')
        \<longrightarrow> Firestore_create fs findId self content w = (Throws e, w')"
    by (intro allI impI, elim conjE) (rule Firestore_create_set_fails; assumption)
  have fc_helper: "\<forall>docRef w1 w2 e w'.
          getNestedCollectionReference fs self None w = (Returns docRef, w1)
          \<and> ref_set fs docRef content w1 = (Returns (), w2)
          \<and> findId docRef content w2 = (Throws e, w')
        \<longrightarrow> Firestore_create fs findId self content w = (Throws e, w')"
    by (intro allI impI, elim conjE) (rule Firestore_create_helper_fails; assumption)
  have fr_ref: "\<forall>e w'.
          getNestedCollectionReference fs self (uid self) w = (Throws e, w')
        \<longrightarrow> Firestore_read fs self w = (Throws e, w')"
    by (intro allI impI) (rule Firestore_read_reference_fails; assumption)
  have fr_get: "\<forall>docRef w1 e w'.
          getNestedCollectionReference fs self (uid self) w = (Returns docRef, w1)
          \<and> ref_get fs docRef w1 = (Throws e, w')
        \<longrightarrow> Firestore_read fs self w = (Throws e, w')"
    by (intro allI impI, elim conjE) (rule Firestore_read_get_fails; assumption)
  have fu_ref: "\<forall>e w'.
          getNestedCollectionReference fs self (uid self) w = (Throws e, w')
        \<longrightarrow> Firestore_update fs self content w = (Throws e, w')"
    by (intro allI impI) (rule Firestore_update_reference_fails; assumption)
  have fu_upd: "\<forall>docRef w1 e w'.
          getNestedCollectionReference fs self (uid self) w = (Returns docRef, w1)
          \<and> ref_update fs docRef content w1 = (Throws e, w')
        \<longrightarrow> Firestore_update fs self content w = (Throws e, w')"
    by (intro allI impI, elim conjE) (rule Firestore_update_fails; assumption)
  have fd_ref: "\<forall>e w'.
          getNestedCollectionReference fs self (uid self) w = (Throws e, w')
        \<longrightarrow> Firestore_delete fs self w = (Throws e, w')"
    by (intro allI impI) (rule Firestore_delete_reference_fails; assumption)
  have fd_del: "\<forall>docRef w1 e w'.
          getNestedCollectionReference fs self (uid self) w = (Returns docRef, w1)
          \<and> ref_delete fs docRef w1 = (Throws e, w')
        \<longrightarrow> Firestore_delete fs self w = (Throws e, w')"
    by (intro allI impI, elim conjE) (rule Firestore_delete_fails; assumption)
  have rp_ref: "\<forall>e w'.
          getNestedCollectionReference fs self None w = (Throws e, w')
        \<longrightarrow> readPaths fs self w = (Throws e, w')"
    by (intro allI impI) (rule readPaths_reference_fails; assumption)
  have rp_list: "\<forall>docRef w1 e w'.
          getNestedCollectionReference fs self None w = (Returns docRef, w1)
          \<and> ref_listDocuments fs docRef w1 = (Throws e, w')
        \<longrightarrow> readPaths fs self w = (Throws e, w')"
    by (intro allI impI, elim conjE) (rule readPaths_fails; assumption)
  have ra_ref: "\<forall>e w'.
          getNestedCollectionReference fs self None w = (Throws e, w')
        \<longrightarrow> readAll fs self w = (Throws e, w')"
    by (intro allI impI) (rule readAll_reference_fails; assumption)
  have ra_list: "\<forall>docRef w1 e w'.
          getNestedCollectionReference fs self None w = (Returns docRef, w1)
          \<and> ref_listDocuments fs docRef w1 = (Throws e, w')
        \<longrightarrow> readAll fs self w = (Throws e, w')"
    by (intro allI impI, elim conjE) (rule readAll_fails; assumption)
  have ral_read: "\<forall>iterFirestore e w'.
          new_Firestore name path [] = Returns iterFirestore
          \<and> Firestore_read fs iterFirestore w = (Throws e, w')
        \<longrightarrow> readAll_loop fs name (path # paths) allDocs w = (Throws e, w')"
    by (intro allI impI, elim conjE) (rule readAll_loop_read_fails; assumption)
  have ve: "verificationEmail auth email t = auth_generateEmailVerificationLink auth email t"
    by (simp add: verificationEmail_def)
  have readable: "\<forall>e. \<not> nullish e \<longrightarrow> (\<exists>msg. get_property e ''message'' = Returns msg)"
    by (intro allI impI) (rule message_of_value)
  show ?thesis
    by (intro conjI)
      (rule nt_rc, rule nt_rr, rule nt_ru, rule nt_rd, rule nt_cu, rule nt_lu, rule
       nt_uu, rule nt_gu, rule nt_du, rule nt_cp, rule nt_vp, rule nt_rp, rule
       nt_gus, rule rc_push, rule rc_set, rule rr_get, rule ru_child, rule ru_set,
       rule rd_child, rule rd_remove, rule cu_fail, rule lu_fail, rule uu_fail, rule
       uu_json, rule gu_fail, rule du_fail, rule cp_fail, rule vp_fail, rule
       rp_fail, rule gus_fail, rule fc_ref, rule fc_set, rule fc_helper, rule
       fr_ref, rule fr_get, rule fu_ref, rule fu_upd, rule fd_ref, rule fd_del, rule
       rp_ref, rule rp_list, rule ra_ref, rule ra_list, rule ral_read, rule ve, rule
       readable)
qed

text \<open>
  The methods run on collaborators whose every call is rejected, on a database that
  rejects every write, on user records that cannot be serialised, on an instance whose
  reference does not resolve, on a helper that throws and on a document that is missing;
  and, without any exception, on the database and the services in memory.
\<close>

theorem collaborator_exceptions_witness:
  "RealTime_create (rejecting_database unavailable) \<lparr>itemsRef = [''items'']\<rparr> (JObj [(''name'', JStr ''Mary'')]) () = (Returns (JArr [JBool False, JStr ''UNAVAILABLE'']), ())
   \<and> RealTime_read (rejecting_database unavailable) \<lparr>itemsRef = [''items'']\<rparr> () = (Returns (JArr [JBool False, JStr ''UNAVAILABLE'']), ())
   \<and> RealTime_update (rejecting_database unavailable) \<lparr>itemsRef = [''items'']\<rparr> (JStr ''-N0'') (JObj [(''name'', JStr ''Mary'')]) () = (Returns (JArr [JBool False, JStr ''UNAVAILABLE'']), ())
   \<and> RealTime_delete (rejecting_database unavailable) \<lparr>itemsRef = [''items'']\<rparr> (JStr ''-N0'') () = (Returns (JArr [JBool False, JStr ''UNAVAILABLE'']), ())
   \<and> createUser (rejecting_auth unavailable) (JObj [(''email'', JStr ''a@b.c'')]) () = (Returns (JArr [JBool False, JStr ''UNAVAILABLE'']), ())
   \<and> loginUser (rejecting_client unavailable) (JStr ''a@b.c'') (JStr ''pw'') () = (Returns (JArr [JBool False, JStr ''UNAVAILABLE'']), ())
   \<and> updateUser (rejecting_auth unavailable) (JStr ''u1'') (JObj [(''email'', JStr ''a@b.c'')]) () = (Returns (JArr [JBool False, JStr ''UNAVAILABLE'']), ())
   \<and> getUser (rejecting_auth unavailable) (JStr ''u1'') () = (Returns (JArr [JBool False, JStr ''UNAVAILABLE'']), ())
   \<and> deleteUser (rejecting_auth unavailable) (JStr ''u1'') () = (Returns (JArr [JBool False, JStr ''UNAVAILABLE'']), ())
   \<and> createPhoneVerification (rejecting_auth unavailable) (JStr ''+15550100'') () = (Returns (JArr [JBool False, JStr ''UNAVAILABLE'']), ())
   \<and> verifyPhoneVerification (rejecting_auth unavailable) (JStr ''session'') (JStr ''123456'') () = (Returns (JArr [JBool False, JStr ''UNAVAILABLE'']), ())
   \<and> resetPassword (rejecting_auth unavailable) (JStr ''a@b.c'') () = (Returns (JArr [JBool False, JStr ''UNAVAILABLE'']), ())
   \<and> getUsers (rejecting_auth unavailable) () = (Returns (JArr [JBool False, JStr ''UNAVAILABLE'']), ())
   \<and> verificationEmail (rejecting_auth unavailable) (JStr ''a@b.c'') () = (Throws unavailable, ())
   \<and> Firestore_create (rejecting_firestore unavailable) (getDocumentIdByContent (rejecting_firestore unavailable))
       \<lparr>collectionName = ''users'', collection = CollectionRef [''users''], uid = Some ''a'', nestedPaths = []\<rparr>
       (JObj [(''name'', JStr ''Mary'')]) () = (Throws unavailable, ())
   \<and> Firestore_read (rejecting_firestore unavailable)
       \<lparr>collectionName = ''users'', collection = CollectionRef [''users''], uid = Some ''a'', nestedPaths = []\<rparr> () = (Throws unavailable, ())
   \<and> Firestore_update (rejecting_firestore unavailable)
       \<lparr>collectionName = ''users'', collection = CollectionRef [''users''], uid = Some ''a'', nestedPaths = []\<rparr>
       (JObj [(''name'', JStr ''Mary'')]) () = (Throws unavailable, ())
   \<and> Firestore_delete (rejecting_firestore unavailable)
       \<lparr>collectionName = ''users'', collection = CollectionRef [''users''], uid = Some ''a'', nestedPaths = []\<rparr> () = (Throws unavailable, ())
   \<and> readPaths (rejecting_firestore unavailable)
       \<lparr>collectionName = ''users'', collection = CollectionRef [''users''], uid = Some ''a'', nestedPaths = []\<rparr> ()
       = (Throws (TypeError ''this.getNestedCollectionReference(...).listDocuments is not a function''), ())
   \<and> readAll (rejecting_firestore unavailable)
       \<lparr>collectionName = ''users'', collection = CollectionRef [''users''], uid = Some ''a'', nestedPaths = []\<rparr> ()
       = (Throws (TypeError ''this.getNestedCollectionReference(...).listDocuments is not a function''), ())
   \<and> readAll_loop (rejecting_firestore unavailable) ''users'' [Some ''a''] [] () = (Throws unavailable, ())
   \<and> RealTime_create read_only_database \<lparr>itemsRef = [''items'']\<rparr> (JObj [(''name'', JStr ''Mary'')]) () = (Returns (JArr [JBool False, JStr ''PERMISSION_DENIED: Permission denied'']), ())
   \<and> RealTime_update read_only_database \<lparr>itemsRef = [''items'']\<rparr> (JStr ''-N0'') (JObj [(''name'', JStr ''Mary'')]) () = (Returns (JArr [JBool False, JStr ''PERMISSION_DENIED: Permission denied'']), ())
   \<and> RealTime_delete read_only_database \<lparr>itemsRef = [''items'']\<rparr> (JStr ''-N0'') () = (Returns (JArr [JBool False, JStr ''PERMISSION_DENIED: Permission denied'']), ())
   \<and> updateUser opaque_auth (JStr ''u1'') (JObj [(''email'', JStr ''a@b.c'')]) () = (Returns (JArr [JBool False, JStr ''userRecord.toJSON is not a function'']), ())
   \<and> Firestore_create memory_firestore (getDocumentIdByContent memory_firestore)
       \<lparr>collectionName = ''users'', collection = CollectionRef [''users''], uid = Some ''order1'', nestedPaths = [''userA'', ''orders'', ''o1'']\<rparr>
       (JObj [(''name'', JStr ''Mary'')]) [([''users'', ''a''], JObj [(''name'', JStr ''John'')])]
       = (Throws (TypeError ''collectionRef.doc is not a function''), [([''users'', ''a''], JObj [(''name'', JStr ''John'')])])
   \<and> Firestore_read memory_firestore
       \<lparr>collectionName = ''users'', collection = CollectionRef [''users''], uid = Some ''order1'', nestedPaths = [''userA'', ''orders'', ''o1'']\<rparr> [([''users'', ''a''], JObj [(''name'', JStr ''John'')])]
       = (Throws (TypeError ''collectionRef.doc is not a function''), [([''users'', ''a''], JObj [(''name'', JStr ''John'')])])
   \<and> Firestore_update memory_firestore
       \<lparr>collectionName = ''users'', collection = CollectionRef [''users''], uid = Some ''order1'', nestedPaths = [''userA'', ''orders'', ''o1'']\<rparr>
       (JObj [(''name'', JStr ''Mary'')]) [([''users'', ''a''], JObj [(''name'', JStr ''John'')])]
       = (Throws (TypeError ''collectionRef.doc is not a function''), [([''users'', ''a''], JObj [(''name'', JStr ''John'')])])
   \<and> Firestore_delete memory_firestore
       \<lparr>collectionName = ''users'', collection = CollectionRef [''users''], uid = Some ''order1'', nestedPaths = [''userA'', ''orders'', ''o1'']\<rparr> [([''users'', ''a''], JObj [(''name'', JStr ''John'')])]
       = (Throws (TypeError ''collectionRef.doc is not a function''), [([''users'', ''a''], JObj [(''name'', JStr ''John'')])])
   \<and> readPaths memory_firestore
       \<lparr>collectionName = ''users'', collection = CollectionRef [''users''], uid = Some ''order1'', nestedPaths = [''userA'', ''orders'', ''o1'']\<rparr> [([''users'', ''a''], JObj [(''name'', JStr ''John'')])]
       = (Throws (TypeError ''collectionRef.doc is not a function''), [([''users'', ''a''], JObj [(''name'', JStr ''John'')])])
   \<and> readAll memory_firestore
       \<lparr>collectionName = ''users'', collection = CollectionRef [''users''], uid = Some ''order1'', nestedPaths = [''userA'', ''orders'', ''o1'']\<rparr> [([''users'', ''a''], JObj [(''name'', JStr ''John'')])]
       = (Throws (TypeError ''collectionRef.doc is not a function''), [([''users'', ''a''], JObj [(''name'', JStr ''John'')])])
   \<and> \<not> threw (RealTime_create memory_database \<lparr>itemsRef = [''items'']\<rparr> (JObj [(''name'', JStr ''Mary'')]) \<lparr>nodes = [([''items'', ''-N0''], JObj [(''name'', JStr ''John'')])], pushed = 1\<rparr>)
   \<and> \<not> threw (RealTime_read memory_database \<lparr>itemsRef = [''items'']\<rparr> \<lparr>nodes = [([''items'', ''-N0''], JObj [(''name'', JStr ''John'')])], pushed = 1\<rparr>)
   \<and> \<not> threw (RealTime_update memory_database \<lparr>itemsRef = [''items'']\<rparr> (JStr ''-N0'') (JObj [(''name'', JStr ''Mary'')]) \<lparr>nodes = [([''items'', ''-N0''], JObj [(''name'', JStr ''John'')])], pushed = 1\<rparr>)
   \<and> \<not> threw (RealTime_delete memory_database \<lparr>itemsRef = [''items'']\<rparr> (JStr ''-N0'') \<lparr>nodes = [([''items'', ''-N0''], JObj [(''name'', JStr ''John'')])], pushed = 1\<rparr>)
   \<and> \<not> threw (createUser sample_auth (JObj [(''email'', JStr ''a@b.c'')]) ())
   \<and> \<not> threw (loginUser sample_client (JStr ''a@b.c'') (JStr ''pw'') ())
   \<and> \<not> threw (updateUser sample_auth (JStr ''u1'') (JObj [(''email'', JStr ''a@b.c'')]) ())
   \<and> \<not> threw (getUser sample_auth (JStr ''u1'') ())
   \<and> \<not> threw (deleteUser sample_auth (JStr ''u1'') ())
   \<and> \<not> threw (createPhoneVerification sample_auth (JStr ''+15550100'') ())
   \<and> \<not> threw (verifyPhoneVerification sample_auth (JStr ''session'') (JStr ''123456'') ())
   \<and> \<not> threw (resetPassword sample_auth (JStr ''a@b.c'') ())
   \<and> \<not> threw (getUsers sample_auth ())
   \<and> fst (Firestore_create memory_firestore (\<lambda>docRef data. throws unavailable)
       \<lparr>collectionName = ''users'', collection = CollectionRef [''users''], uid = Some ''zz'', nestedPaths = []\<rparr>
       (JObj [(''name'', JStr ''Mary'')]) [([''users'', ''a''], JObj [(''name'', JStr ''John'')])]) = Throws unavailable
   \<and> Firestore_update memory_firestore
       \<lparr>collectionName = ''users'', collection = CollectionRef [''users''], uid = Some ''zz'', nestedPaths = []\<rparr>
       (JObj [(''name'', JStr ''Mary'')]) [([''users'', ''a''], JObj [(''name'', JStr ''John'')])]
       = (Throws (JError ''5 NOT_FOUND: No document to update''), [([''users'', ''a''], JObj [(''name'', JStr ''John'')])])"
proof -
  note defs = memory_database_def sample_auth_def sample_client_def sample_user_def
    rejecting_database_def rejecting_auth_def rejecting_client_def read_only_database_def
    opaque_auth_def unavailable_def permission_denied_def TypeError_def
    memory_firestore_def new_Firestore_def sdk_collection_def rejecting_firestore_def getNestedCollectionReference_def nested_loop.simps
    validateResourcePath_def resource_segments_def getDocumentIdByContent_def listed_def
    documents_in_def first_match_def fresh_id_def stored_def
    returns_def throws_def await_def of_outcome_def string_of_nat.simps digit_char_def
  have rejected:
    "RealTime_create (rejecting_database unavailable) \<lparr>itemsRef = [''items'']\<rparr> (JObj [(''name'', JStr ''Mary'')]) () = (Returns (JArr [JBool False, JStr ''UNAVAILABLE'']), ())
     \<and> RealTime_read (rejecting_database unavailable) \<lparr>itemsRef = [''items'']\<rparr> () = (Returns (JArr [JBool False, JStr ''UNAVAILABLE'']), ())
     \<and> RealTime_update (rejecting_database unavailable) \<lparr>itemsRef = [''items'']\<rparr> (JStr ''-N0'') (JObj [(''name'', JStr ''Mary'')]) () = (Returns (JArr [JBool False, JStr ''UNAVAILABLE'']), ())
     \<and> RealTime_delete (rejecting_database unavailable) \<lparr>itemsRef = [''items'']\<rparr> (JStr ''-N0'') () = (Returns (JArr [JBool False, JStr ''UNAVAILABLE'']), ())
     \<and> createUser (rejecting_auth unavailable) (JObj [(''email'', JStr ''a@b.c'')]) () = (Returns (JArr [JBool False, JStr ''UNAVAILABLE'']), ())
     \<and> loginUser (rejecting_client unavailable) (JStr ''a@b.c'') (JStr ''pw'') () = (Returns (JArr [JBool False, JStr ''UNAVAILABLE'']), ())
     \<and> updateUser (rejecting_auth unavailable) (JStr ''u1'') (JObj [(''email'', JStr ''a@b.c'')]) () = (Returns (JArr [JBool False, JStr ''UNAVAILABLE'']), ())
     \<and> getUser (rejecting_auth unavailable) (JStr ''u1'') () = (Returns (JArr [JBool False, JStr ''UNAVAILABLE'']), ())
     \<and> deleteUser (rejecting_auth unavailable) (JStr ''u1'') () = (Returns (JArr [JBool False, JStr ''UNAVAILABLE'']), ())
     \<and> createPhoneVerification (rejecting_auth unavailable) (JStr ''+15550100'') () = (Returns (JArr [JBool False, JStr ''UNAVAILABLE'']), ())
     \<and> verifyPhoneVerification (rejecting_auth unavailable) (JStr ''session'') (JStr ''123456'') () = (Returns (JArr [JBool False, JStr ''UNAVAILABLE'']), ())
     \<and> resetPassword (rejecting_auth unavailable) (JStr ''a@b.c'') () = (Returns (JArr [JBool False, JStr ''UNAVAILABLE'']), ())
     \<and> getUsers (rejecting_auth unavailable) () = (Returns (JArr [JBool False, JStr ''UNAVAILABLE'']), ())
     \<and> verificationEmail (rejecting_auth unavailable) (JStr ''a@b.c'') () = (Throws unavailable, ())
     \<and> Firestore_create (rejecting_firestore unavailable) (getDocumentIdByContent (rejecting_firestore unavailable))
       \<lparr>collectionName = ''users'', collection = CollectionRef [''users''], uid = Some ''a'', nestedPaths = []\<rparr>
       (JObj [(''name'', JStr ''Mary'')]) () = (Throws unavailable, ())
     \<and> Firestore_read (rejecting_firestore unavailable)
       \<lparr>collectionName = ''users'', collection = CollectionRef [''users''], uid = Some ''a'', nestedPaths = []\<rparr> () = (Throws unavailable, ())
     \<and> Firestore_update (rejecting_firestore unavailable)
       \<lparr>collectionName = ''users'', collection = CollectionRef [''users''], uid = Some ''a'', nestedPaths = []\<rparr>
       (JObj [(''name'', JStr ''Mary'')]) () = (Throws unavailable, ())
     \<and> Firestore_delete (rejecting_firestore unavailable)
       \<lparr>collectionName = ''users'', collection = CollectionRef [''users''], uid = Some ''a'', nestedPaths = []\<rparr> () = (Throws unavailable, ())
     \<and> readPaths (rejecting_firestore unavailable)
       \<lparr>collectionName = ''users'', collection = CollectionRef [''users''], uid = Some ''a'', nestedPaths = []\<rparr> ()
       = (Throws (TypeError ''this.getNestedCollectionReference(...).listDocuments is not a function''), ())
     \<and> readAll (rejecting_firestore unavailable)
       \<lparr>collectionName = ''users'', collection = CollectionRef [''users''], uid = Some ''a'', nestedPaths = []\<rparr> ()
       = (Throws (TypeError ''this.getNestedCollectionReference(...).listDocuments is not a function''), ())
     \<and> readAll_loop (rejecting_firestore unavailable) ''users'' [Some ''a''] [] () = (Throws unavailable, ())"
    using collaborator_exceptions [where db = "rejecting_database unavailable" and rt = "\<lparr>itemsRef = [''items'']\<rparr>"
      and data = "(JObj [(''name'', JStr ''Mary'')])" and ident = "(JStr ''-N0'')" and newData = "(JObj [(''name'', JStr ''Mary'')])" and s = "()"
      and auth = "rejecting_auth unavailable" and firebase = "rejecting_client unavailable"
      and userData = "(JObj [(''email'', JStr ''a@b.c'')])" and email = "(JStr ''a@b.c'')" and password = "(JStr ''pw'')" and u = "(JStr ''u1'')"
      and updateUserData = "(JObj [(''email'', JStr ''a@b.c'')])" and phoneNumber = "(JStr ''+15550100'')" and verificationId = "(JStr ''session'')"
      and otp = "(JStr ''123456'')" and t = "()"
      and fs = "rejecting_firestore unavailable" and findId = "getDocumentIdByContent (rejecting_firestore unavailable)"
      and self = "\<lparr>collectionName = ''users'', collection = CollectionRef [''users''], uid = Some ''a'', nestedPaths = []\<rparr>"
      and content = "(JObj [(''name'', JStr ''Mary'')])" and w = "()"
      and name = "''users''" and path = "Some ''a''" and paths = "[]" and allDocs = "[]",
      OF rejecting_database_rejects [OF not_nullish_unavailable] rejecting_auth_rejects [OF not_nullish_unavailable]
        rejecting_client_rejects [OF not_nullish_unavailable]]
    by (simp add: defs)
  have later:
    "RealTime_create read_only_database \<lparr>itemsRef = [''items'']\<rparr> (JObj [(''name'', JStr ''Mary'')]) () = (Returns (JArr [JBool False, JStr ''PERMISSION_DENIED: Permission denied'']), ())
     \<and> RealTime_update read_only_database \<lparr>itemsRef = [''items'']\<rparr> (JStr ''-N0'') (JObj [(''name'', JStr ''Mary'')]) () = (Returns (JArr [JBool False, JStr ''PERMISSION_DENIED: Permission denied'']), ())
     \<and> RealTime_delete read_only_database \<lparr>itemsRef = [''items'']\<rparr> (JStr ''-N0'') () = (Returns (JArr [JBool False, JStr ''PERMISSION_DENIED: Permission denied'']), ())
     \<and> updateUser opaque_auth (JStr ''u1'') (JObj [(''email'', JStr ''a@b.c'')]) () = (Returns (JArr [JBool False, JStr ''userRecord.toJSON is not a function'']), ())
     \<and> Firestore_create memory_firestore (getDocumentIdByContent memory_firestore)
       \<lparr>collectionName = ''users'', collection = CollectionRef [''users''], uid = Some ''order1'', nestedPaths = [''userA'', ''orders'', ''o1'']\<rparr>
       (JObj [(''name'', JStr ''Mary'')]) [([''users'', ''a''], JObj [(''name'', JStr ''John'')])]
       = (Throws (TypeError ''collectionRef.doc is not a function''), [([''users'', ''a''], JObj [(''name'', JStr ''John'')])])
     \<and> Firestore_read memory_firestore
       \<lparr>collectionName = ''users'', collection = CollectionRef [''users''], uid = Some ''order1'', nestedPaths = [''userA'', ''orders'', ''o1'']\<rparr> [([''users'', ''a''], JObj [(''name'', JStr ''John'')])]
       = (Throws (TypeError ''collectionRef.doc is not a function''), [([''users'', ''a''], JObj [(''name'', JStr ''John'')])])
     \<and> Firestore_update memory_firestore
       \<lparr>collectionName = ''users'', collection = CollectionRef [''users''], uid = Some ''order1'', nestedPaths = [''userA'', ''orders'', ''o1'']\<rparr>
       (JObj [(''name'', JStr ''Mary'')]) [([''users'', ''a''], JObj [(''name'', JStr ''John'')])]
       = (Throws (TypeError ''collectionRef.doc is not a function''), [([''users'', ''a''], JObj [(''name'', JStr ''John'')])])
     \<and> Firestore_delete memory_firestore
       \<lparr>collectionName = ''users'', collection = CollectionRef [''users''], uid = Some ''order1'', nestedPaths = [''userA'', ''orders'', ''o1'']\<rparr> [([''users'', ''a''], JObj [(''name'', JStr ''John'')])]
       = (Throws (TypeError ''collectionRef.doc is not a function''), [([''users'', ''a''], JObj [(''name'', JStr ''John'')])])
     \<and> readPaths memory_firestore
       \<lparr>collectionName = ''users'', collection = CollectionRef [''users''], uid = Some ''order1'', nestedPaths = [''userA'', ''orders'', ''o1'']\<rparr> [([''users'', ''a''], JObj [(''name'', JStr ''John'')])]
       = (Throws (TypeError ''collectionRef.doc is not a function''), [([''users'', ''a''], JObj [(''name'', JStr ''John'')])])
     \<and> readAll memory_firestore
       \<lparr>collectionName = ''users'', collection = CollectionRef [''users''], uid = Some ''order1'', nestedPaths = [''userA'', ''orders'', ''o1'']\<rparr> [([''users'', ''a''], JObj [(''name'', JStr ''John'')])]
       = (Throws (TypeError ''collectionRef.doc is not a function''), [([''users'', ''a''], JObj [(''name'', JStr ''John'')])])"
    using collaborator_exceptions [where db = "read_only_database" and rt = "\<lparr>itemsRef = [''items'']\<rparr>"
      and data = "(JObj [(''name'', JStr ''Mary'')])" and ident = "(JStr ''-N0'')" and newData = "(JObj [(''name'', JStr ''Mary'')])" and s = "()"
      and auth = "opaque_auth" and firebase = "sample_client"
      and userData = "(JObj [(''email'', JStr ''a@b.c'')])" and email = "(JStr ''a@b.c'')" and password = "(JStr ''pw'')" and u = "(JStr ''u1'')"
      and updateUserData = "(JObj [(''email'', JStr ''a@b.c'')])" and phoneNumber = "(JStr ''+15550100'')" and verificationId = "(JStr ''session'')"
      and otp = "(JStr ''123456'')" and t = "()"
      and fs = "memory_firestore" and findId = "getDocumentIdByContent memory_firestore"
      and self = "\<lparr>collectionName = ''users'', collection = CollectionRef [''users''], uid = Some ''order1'', nestedPaths = [''userA'', ''orders'', ''o1'']\<rparr>"
      and content = "(JObj [(''name'', JStr ''Mary'')])" and w = "[([''users'', ''a''], JObj [(''name'', JStr ''John'')])]"
      and name = "''users''" and path = "Some ''a''" and paths = "[]" and allDocs = "[]",
      OF read_only_database_rejects opaque_auth_rejects sample_client_rejects]
    by (simp add: defs)
  have answered:
    "\<not> threw (RealTime_create memory_database \<lparr>itemsRef = [''items'']\<rparr> (JObj [(''name'', JStr ''Mary'')]) \<lparr>nodes = [([''items'', ''-N0''], JObj [(''name'', JStr ''John'')])], pushed = 1\<rparr>)
     \<and> \<not> threw (RealTime_read memory_database \<lparr>itemsRef = [''items'']\<rparr> \<lparr>nodes = [([''items'', ''-N0''], JObj [(''name'', JStr ''John'')])], pushed = 1\<rparr>)
     \<and> \<not> threw (RealTime_update memory_database \<lparr>itemsRef = [''items'']\<rparr> (JStr ''-N0'') (JObj [(''name'', JStr ''Mary'')]) \<lparr>nodes = [([''items'', ''-N0''], JObj [(''name'', JStr ''John'')])], pushed = 1\<rparr>)
     \<and> \<not> threw (RealTime_delete memory_database \<lparr>itemsRef = [''items'']\<rparr> (JStr ''-N0'') \<lparr>nodes = [([''items'', ''-N0''], JObj [(''name'', JStr ''John'')])], pushed = 1\<rparr>)
     \<and> \<not> threw (createUser sample_auth (JObj [(''email'', JStr ''a@b.c'')]) ())
     \<and> \<not> threw (loginUser sample_client (JStr ''a@b.c'') (JStr ''pw'') ())
     \<and> \<not> threw (updateUser sample_auth (JStr ''u1'') (JObj [(''email'', JStr ''a@b.c'')]) ())
     \<and> \<not> threw (getUser sample_auth (JStr ''u1'') ())
     \<and> \<not> threw (deleteUser sample_auth (JStr ''u1'') ())
     \<and> \<not> threw (createPhoneVerification sample_auth (JStr ''+15550100'') ())
     \<and> \<not> threw (verifyPhoneVerification sample_auth (JStr ''session'') (JStr ''123456'') ())
     \<and> \<not> threw (resetPassword sample_auth (JStr ''a@b.c'') ())
     \<and> \<not> threw (getUsers sample_auth ())
     \<and> fst (Firestore_create memory_firestore (\<lambda>docRef data. throws unavailable)
       \<lparr>collectionName = ''users'', collection = CollectionRef [''users''], uid = Some ''zz'', nestedPaths = []\<rparr>
       (JObj [(''name'', JStr ''Mary'')]) [([''users'', ''a''], JObj [(''name'', JStr ''John'')])]) = Throws unavailable
     \<and> Firestore_update memory_firestore
       \<lparr>collectionName = ''users'', collection = CollectionRef [''users''], uid = Some ''zz'', nestedPaths = []\<rparr>
       (JObj [(''name'', JStr ''Mary'')]) [([''users'', ''a''], JObj [(''name'', JStr ''John'')])]
       = (Throws (JError ''5 NOT_FOUND: No document to update''), [([''users'', ''a''], JObj [(''name'', JStr ''John'')])])"
    using collaborator_exceptions [where db = "memory_database" and rt = "\<lparr>itemsRef = [''items'']\<rparr>"
      and data = "(JObj [(''name'', JStr ''Mary'')])" and ident = "(JStr ''-N0'')" and newData = "(JObj [(''name'', JStr ''Mary'')])" and s = "\<lparr>nodes = [([''items'', ''-N0''], JObj [(''name'', JStr ''John'')])], pushed = 1\<rparr>"
      and auth = "sample_auth" and firebase = "sample_client"
      and userData = "(JObj [(''email'', JStr ''a@b.c'')])" and email = "(JStr ''a@b.c'')" and password = "(JStr ''pw'')" and u = "(JStr ''u1'')"
      and updateUserData = "(JObj [(''email'', JStr ''a@b.c'')])" and phoneNumber = "(JStr ''+15550100'')" and verificationId = "(JStr ''session'')"
      and otp = "(JStr ''123456'')" and t = "()"
      and fs = "memory_firestore" and findId = "\<lambda>docRef data. throws unavailable"
      and self = "\<lparr>collectionName = ''users'', collection = CollectionRef [''users''], uid = Some ''zz'', nestedPaths = []\<rparr>"
      and content = "(JObj [(''name'', JStr ''Mary'')])" and w = "[([''users'', ''a''], JObj [(''name'', JStr ''John'')])]"
      and name = "''users''" and path = "Some ''a''" and paths = "[]" and allDocs = "[]",
      OF memory_database_rejects sample_auth_rejects sample_client_rejects]
    by (simp add: defs)
  show ?thesis
    using rejected later answered by simp
qed

text \<open>
  \<open>Firestore.update\<close> on a store that rejects the call, and on the store in memory for
  a document that is missing: the exception reaches the caller. And a database that
  rejects with \<open>null\<close>: the handler of \<open>RealTime.read\<close> throws in its turn.
\<close>

theorem uncaught_exception_counterexample:
  "Firestore_update (rejecting_firestore unavailable)
       \<lparr>collectionName = ''users'', collection = CollectionRef [''users''], uid = Some ''a'', nestedPaths = []\<rparr>
       (JObj [(''name'', JStr ''Mary'')]) () = (Throws unavailable, ())
   \<and> Firestore_update memory_firestore
       \<lparr>collectionName = ''users'', collection = CollectionRef [''users''], uid = Some ''zz'', nestedPaths = []\<rparr>
       (JObj [(''name'', JStr ''Mary'')]) [([''users'', ''a''], JObj [(''name'', JStr ''John'')])]
     = (Throws (JError ''5 NOT_FOUND: No document to update''), [([''users'', ''a''], JObj [(''name'', JStr ''John'')])])
   \<and> RealTime_read (rejecting_database JNull) \<lparr>itemsRef = [''items'']\<rparr> ()
     = (Throws (TypeError (''Cannot read properties of null (reading '' @ quoted ''message'' @ '')'')), ())"
  by (simp add: Firestore_update_def RealTime_read_def try_catch_def return_failure_def
      rejecting_firestore_def rejecting_database_def memory_firestore_def
      getNestedCollectionReference_def nested_loop.simps validateResourcePath_def
      resource_segments_def stored_def await_def throws_def of_outcome_def TypeError_def)

end
